theory Spec2Isabelle
  imports Main "HOL-Library.AList" "HOL-Library.Sublist"
begin

section \<open>JavaScript values\<close>

text \<open>
  The values that travel through \<^verbatim>\<open>src/services/DynamoDbService.js\<close> as key names,
  attribute values and ids: the JSON scalars and arrays. \<open>Num i\<close> is the JavaScript
  number \<open>i\<close> for an integer that JavaScript holds exactly and prints as plain decimal
  digits (in magnitude below \<open>2 ^ 53\<close>); from \<open>10 ^ 21\<close> on JavaScript prints an
  exponent form, which \<open>int_to_string\<close> does not follow, and no statement below rests
  on the digits of a number. Plain objects, functions and symbols are left out of the
  value type.
\<close>

datatype jsval =
    Undefined
  | Null
  | Bool bool
  | Num int
  | Str string
  | Arr "jsval list"

text \<open>\<^verbatim>\<open>Array.isArray(v)\<close>\<close>

fun isArray :: "jsval \<Rightarrow> bool" where
  "isArray (Arr xs) = True"
| "isArray v = False"

text \<open>Decimal digits of a natural number, as \<^verbatim>\<open>Number.prototype.toString\<close> prints them.\<close>

definition digit_char :: "nat \<Rightarrow> char" where
  "digit_char d = ''0123456789'' ! d"

fun nat_to_string :: "nat \<Rightarrow> string" where
  "nat_to_string n =
     (if n < 10 then [digit_char n] else nat_to_string (n div 10) @ [digit_char (n mod 10)])"

definition int_to_string :: "int \<Rightarrow> string" where
  "int_to_string i = (if i < 0 then CHR ''-'' # nat_to_string (nat (- i)) else nat_to_string (nat i))"

text \<open>\<^verbatim>\<open>Array.prototype.join(sep)\<close> on strings already converted.\<close>

fun join_strings :: "string \<Rightarrow> string list \<Rightarrow> string" where
  "join_strings sep [] = []"
| "join_strings sep [s] = s"
| "join_strings sep (s # t # ss) = s @ sep @ join_strings sep (t # ss)"

text \<open>
  \<^verbatim>\<open>`${v}`\<close>: the string conversion a template literal applies, which is also the
  conversion of a value used as a property key (\<^verbatim>\<open>options[key]\<close>). An array is its
  elements joined by a comma, where \<^verbatim>\<open>null\<close> and \<^verbatim>\<open>undefined\<close> elements print as
  the empty string.
\<close>

fun to_string :: "jsval \<Rightarrow> string" where
  "to_string Undefined = ''undefined''"
| "to_string Null = ''null''"
| "to_string (Bool b) = (if b then ''true'' else ''false'')"
| "to_string (Num i) = int_to_string i"
| "to_string (Str s) = s"
| "to_string (Arr xs) =
     join_strings '','' (map (\<lambda>x. if x = Undefined \<or> x = Null then [] else to_string x) xs)"

text \<open>
  \<^verbatim>\<open>v.length\<close>. Reading a property of \<^verbatim>\<open>null\<close> or \<^verbatim>\<open>undefined\<close> throws a
  TypeError (\<open>None\<close> here); a number or a boolean has no such property.
\<close>

fun js_length :: "jsval \<Rightarrow> jsval option" where
  "js_length Undefined = None"
| "js_length Null = None"
| "js_length (Arr xs) = Some (Num (int (length xs)))"
| "js_length (Str s) = Some (Num (int (length s)))"
| "js_length v = Some Undefined"

text \<open>
  \<^verbatim>\<open>v[i]\<close> for an index \<open>i\<close>: an element of an array, a character of a string,
  \<^verbatim>\<open>undefined\<close> out of range and on numbers and booleans. (On \<^verbatim>\<open>null\<close> and
  \<^verbatim>\<open>undefined\<close> the read throws; \<open>validateDuplicate\<close> reads \<^verbatim>\<open>values.length\<close>
  first, so it never indexes such a value.)
\<close>

fun js_index :: "jsval \<Rightarrow> nat \<Rightarrow> jsval" where
  "js_index (Arr xs) i = (if i < length xs then xs ! i else Undefined)"
| "js_index (Str s) i = (if i < length s then Str [s ! i] else Undefined)"
| "js_index v i = Undefined"


section \<open>Errors\<close>

text \<open>
  Modelled from the spec: the module \<^verbatim>\<open>../utils/errors\<close> that the service requires is
  not among the sources. The spec names its three error kinds (NotFound, BadRequest,
  Conflict), each built from a message. \<open>TypeError\<close> is the error the JavaScript engine
  itself throws when a property of \<^verbatim>\<open>undefined\<close> is read or a non-function is called;
  \<open>Backend e\<close> is an error object \<open>e\<close> that the database library hands to a callback.
  A promise that rejects and an exception thrown before the promise exists are both the
  left summand of a result.
\<close>

datatype error =
    NotFoundError string
  | BadRequestError string
  | ConflictError string
  | TypeError
  | Backend string

section \<open>Documents, models and the service state\<close>

text \<open>An object used as a dictionary: its own properties, by name.\<close>

type_synonym document = "(string \<times> jsval) list"

text \<open>\<^verbatim>\<open>obj[key]\<close> on such an object: \<^verbatim>\<open>undefined\<close> when the property is absent.\<close>

definition get_attr :: "document \<Rightarrow> string \<Rightarrow> jsval" where
  "get_attr d k = (case map_of d k of Some v \<Rightarrow> v | None \<Rightarrow> Undefined)"

text \<open>
  \<^verbatim>\<open>obj[key] = v\<close> on a plain object (\<^verbatim>\<open>{}\<close>) when \<open>v\<close> is an object, as
  \<^verbatim>\<open>{ eq: value }\<close> is. The key \<^verbatim>\<open>__proto__\<close> is the accessor of
  \<^verbatim>\<open>Object.prototype\<close>: the assignment calls its setter, which replaces the
  prototype of \<open>obj\<close> and adds no own property. Every other key becomes, or
  overwrites, an own property.
\<close>

definition set_property :: "string \<Rightarrow> 'v \<Rightarrow> (string \<times> 'v) list \<Rightarrow> (string \<times> 'v) list" where
  "set_property key v obj = (if key = ''__proto__'' then obj else AList.update key v obj)"

text \<open>
  A comparison of a scan filter. The service itself only builds \<^verbatim>\<open>{ eq: v }\<close>; any
  other comparison a caller passes to \<open>search\<close> is a predicate on the attribute.
\<close>

datatype criterion = Eq jsval | Criterion "jsval \<Rightarrow> bool"

type_synonym search_options = "(string \<times> criterion) list"

text \<open>An entity descriptor of the configuration: field attributes and schema options.\<close>

record entity =
  entity_fields :: "(string \<times> (string \<times> string) list) list"
  entity_options :: "(string \<times> string) list"

record model =
  model_name :: string
  schema_fields :: "(string \<times> (string \<times> string) list) list"
  schema_options :: "(string \<times> string) list"

text \<open>
  \<^verbatim>\<open>getDynamooseModel\<close> (lines 276-285): a schema from the entity's fields and options,
  and a model of that schema under the given name.
\<close>

definition getDynamooseModel :: "string \<Rightarrow> entity \<Rightarrow> model" where
  "getDynamooseModel modelName entity =
     \<lparr>model_name = modelName,
      schema_fields = entity_fields entity,
      schema_options = entity_options entity\<rparr>"

text \<open>
  A record handle (\<^verbatim>\<open>dbItem\<close>): an instance of a model whose attributes are its own
  properties. Handles are mutable objects, so they live in a heap and the operations pass
  references to them. The prototype of a handle is the prototype of its model, on which
  the methods \<^verbatim>\<open>save\<close> and \<^verbatim>\<open>delete\<close> are found, until an assignment to
  \<^verbatim>\<open>__proto__\<close> replaces it by an array or by \<^verbatim>\<open>null\<close>.
\<close>

datatype proto = ModelProto | ArrayProto "jsval list" | NullProto

record item =
  item_model :: model
  item_proto :: proto
  item_fields :: document

type_synonym handle = nat

text \<open>
  \<^verbatim>\<open>dbItem.save\<close> and \<^verbatim>\<open>dbItem.delete\<close> are methods of the model's prototype:
  a handle has them while that is its prototype and no own property of the name shadows
  the method (no value of \<^typ>\<open>jsval\<close> is a function).
\<close>

definition has_method :: "item \<Rightarrow> string \<Rightarrow> bool" where
  "has_method it name = (item_proto it = ModelProto \<and> map_of (item_fields it) name = None)"

text \<open>
  \<^verbatim>\<open>dbItem[key] = v\<close> on a handle. For the key \<^verbatim>\<open>__proto__\<close>, unless the handle
  has an own property of that name or its prototype chain no longer reaches
  \<^verbatim>\<open>Object.prototype\<close>, the assignment calls the setter of \<^verbatim>\<open>Object.prototype\<close>:
  \<^verbatim>\<open>null\<close> and an array replace the prototype, any other value of \<^typ>\<open>jsval\<close> is
  ignored, and no field is written. Every other assignment writes the own property.
\<close>

definition assign_property :: "string \<Rightarrow> jsval \<Rightarrow> item \<Rightarrow> item" where
  "assign_property key v dbItem =
     (if key = ''__proto__'' \<and> map_of (item_fields dbItem) key = None
         \<and> item_proto dbItem \<noteq> NullProto
      then (case v of
              Null \<Rightarrow> dbItem\<lparr>item_proto := NullProto\<rparr>
            | Arr xs \<Rightarrow> dbItem\<lparr>item_proto := ArrayProto xs\<rparr>
            | _ \<Rightarrow> dbItem)
      else dbItem\<lparr>item_fields := AList.update key v (item_fields dbItem)\<rparr>)"

datatype request =
    ScanReq string search_options
  | QueryReq string string jsval
  | PutReq string document
  | DeleteReq string document

text \<open>
  The state the operations run in: the service's \<^verbatim>\<open>this.models\<close>, the assignments to
  it that the constructor has scheduled and that have not run yet, the heap of record
  handles, and the database: the documents of each table, the outcomes of the coming
  database calls (\<open>Some e\<close>: the call fails with \<open>e\<close>; an empty schedule: every call
  succeeds) and the log of the calls issued so far.
\<close>

record world =
  models :: "string \<rightharpoonup> model"
  pending :: "(string \<times> model) list"
  heap :: "handle \<rightharpoonup> item"
  next_handle :: handle
  tables :: "string \<Rightarrow> document list"
  outcomes :: "string option list"
  calls :: "request list"

record scan_result =
  items :: "handle list"
  count :: nat

section \<open>The database library\<close>

text \<open>
  Modelled from the spec: the library behind \<^verbatim>\<open>scan(..).exec\<close>,
  \<^verbatim>\<open>query('id').eq(..).exec\<close>, \<^verbatim>\<open>save\<close> and \<^verbatim>\<open>delete\<close> is an external collaborator
  and not among the sources. The spec describes a record as a document identified by its
  primary key \<^verbatim>\<open>id\<close>, created by \<open>create\<close>, changed by \<open>update\<close> and removed by
  \<open>delete\<close>, and every call as one request that completes with an error or a result.
  Each call is logged and takes the next scheduled outcome; a failing call changes nothing
  else. A successful one reads or writes the table of the model, and the documents it
  returns are new handles.
\<close>

definition next_outcome :: "world \<Rightarrow> string option" where
  "next_outcome w = (case outcomes w of [] \<Rightarrow> None | out # rest \<Rightarrow> out)"

definition backend_call :: "request \<Rightarrow> world \<Rightarrow> string option \<times> world" where
  "backend_call req w =
     (next_outcome w, w\<lparr>outcomes := tl (outcomes w), calls := calls w @ [req]\<rparr>)"

definition alloc :: "item \<Rightarrow> world \<Rightarrow> handle \<times> world" where
  "alloc it w =
     (next_handle w,
      w\<lparr>heap := (heap w)(next_handle w \<mapsto> it), next_handle := Suc (next_handle w)\<rparr>)"

fun alloc_all :: "model \<Rightarrow> document list \<Rightarrow> world \<Rightarrow> handle list \<times> world" where
  "alloc_all m [] w = ([], w)"
| "alloc_all m (d # ds) w =
     (case alloc \<lparr>item_model = m, item_proto = ModelProto, item_fields = d\<rparr> w of
        (h, w1) \<Rightarrow> (case alloc_all m ds w1 of (hs, w2) \<Rightarrow> (h # hs, w2)))"

fun holds :: "criterion \<Rightarrow> jsval \<Rightarrow> bool" where
  "holds (Eq v) x = (x = v)"
| "holds (Criterion p) x = p x"

definition matches :: "search_options \<Rightarrow> document \<Rightarrow> bool" where
  "matches opts d = list_all (\<lambda>(f, c). holds c (get_attr d f)) opts"

definition scan_exec :: "model \<Rightarrow> search_options \<Rightarrow> world \<Rightarrow> (string + scan_result) \<times> world" where
  "scan_exec m opts w =
     (case backend_call (ScanReq (model_name m) opts) w of
        (Some err, w1) \<Rightarrow> (Inl err, w1)
      | (None, w1) \<Rightarrow>
          (case alloc_all m (filter (matches opts) (tables w1 (model_name m))) w1 of
             (hs, w2) \<Rightarrow> (Inr \<lparr>items = hs, count = length hs\<rparr>, w2)))"

definition query_exec :: "model \<Rightarrow> string \<Rightarrow> jsval \<Rightarrow> world \<Rightarrow> (string + handle list) \<times> world" where
  "query_exec m key v w =
     (case backend_call (QueryReq (model_name m) key v) w of
        (Some err, w1) \<Rightarrow> (Inl err, w1)
      | (None, w1) \<Rightarrow>
          (case alloc_all m (filter (\<lambda>d. get_attr d key = v) (tables w1 (model_name m))) w1 of
             (hs, w2) \<Rightarrow> (Inr hs, w2)))"

definition save_exec :: "item \<Rightarrow> world \<Rightarrow> string option \<times> world" where
  "save_exec it w =
     (case backend_call (PutReq (model_name (item_model it)) (item_fields it)) w of
        (Some err, w1) \<Rightarrow> (Some err, w1)
      | (None, w1) \<Rightarrow>
          (None, w1\<lparr>tables := (tables w1)
             (model_name (item_model it) :=
                filter (\<lambda>d. get_attr d ''id'' \<noteq> get_attr (item_fields it) ''id'')
                  (tables w1 (model_name (item_model it))) @ [item_fields it])\<rparr>))"

definition delete_exec :: "item \<Rightarrow> world \<Rightarrow> string option \<times> world" where
  "delete_exec it w =
     (case backend_call (DeleteReq (model_name (item_model it)) (item_fields it)) w of
        (Some err, w1) \<Rightarrow> (Some err, w1)
      | (None, w1) \<Rightarrow>
          (None, w1\<lparr>tables := (tables w1)
             (model_name (item_model it) :=
                filter (\<lambda>d. get_attr d ''id'' \<noteq> get_attr (item_fields it) ''id'')
                  (tables w1 (model_name (item_model it))))\<rparr>))"

section \<open>The service\<close>

text \<open>
  The class \<^verbatim>\<open>DynamoDbService\<close> of \<^verbatim>\<open>src/services/DynamoDbService.js\<close>. (The
  factory-function variant that follows the class in the sources has the same function
  bodies over a local \<^verbatim>\<open>models\<close> object, with \<^verbatim>\<open>delete\<close> named \<^verbatim>\<open>remove\<close>.)
  Every operation takes the state and returns its outcome with the new state: \<open>Inr\<close>
  what the promise resolves with, \<open>Inl\<close> what it rejects with.
\<close>

record config =
  entities :: "(string \<times> entity) list"

text \<open>
  The constructor (lines 42-56). The settings it hands to the database library are not
  part of the service's state. \<^verbatim>\<open>this.models\<close> starts empty; for every key of
  \<^verbatim>\<open>config.entities\<close> the model is built at once, and its assignment to
  \<^verbatim>\<open>this.models[key]\<close> stands behind an \<^verbatim>\<open>await\<close>: it runs after the constructor
  has returned.
\<close>

definition DynamoDbService :: "config \<Rightarrow> world \<Rightarrow> world" where
  "DynamoDbService cfg w =
     w\<lparr>models := Map.empty,
       pending := List.map_filter
         (\<lambda>key. map_option (\<lambda>e. (key, getDynamooseModel key e)) (map_of (entities cfg) key))
         (map fst (entities cfg))\<rparr>"

text \<open>The scheduled assignments \<^verbatim>\<open>this.models[key] = model\<close>, run in order.\<close>

definition run_pending :: "world \<Rightarrow> world" where
  "run_pending w =
     w\<lparr>models := fold (\<lambda>(key, m) ms. ms(key \<mapsto> m)) (pending w) (models w), pending := []\<rparr>"

text \<open>\<^verbatim>\<open>search\<close> (lines 66-76).\<close>

definition search :: "world \<Rightarrow> string \<Rightarrow> search_options \<Rightarrow> (error + handle list) \<times> world" where
  "search w tableName searchOptions =
     (case models w tableName of
        None \<Rightarrow> (Inl TypeError, w)
      | Some m \<Rightarrow>
          (case scan_exec m searchOptions w of
             (Inl err, w') \<Rightarrow> (Inl (Backend err), w')
           | (Inr result, w') \<Rightarrow> (Inr (if count result = 0 then [] else items result), w')))"

text \<open>\<^verbatim>\<open>getById\<close> (lines 86-105).\<close>

definition getById :: "world \<Rightarrow> string \<Rightarrow> jsval \<Rightarrow> (error + handle) \<times> world" where
  "getById w tableName ident =
     (case models w tableName of
        None \<Rightarrow> (Inl TypeError, w)
      | Some m \<Rightarrow>
          (case query_exec m ''id'' ident w of
             (Inl err, w') \<Rightarrow> (Inl (Backend err), w')
           | (Inr result, w') \<Rightarrow>
               if length result > 0 then (Inr (result ! 0), w')
               else (Inl (NotFoundError
                      (tableName @ '' with id: '' @ to_string ident @ '' doesn'' @ [CHR 0x27] @ ''t exist'')),
                     w')))"

text \<open>
  \<^verbatim>\<open>validateDuplicate\<close>, its first part (lines 114-127): the arity check and the search
  options built from the keys and the values. \<^verbatim>\<open>options\<close> starts as \<^verbatim>\<open>{}\<close>, and
  what a scan reads of it are its own properties.
\<close>

definition duplicate_options :: "jsval \<Rightarrow> jsval \<Rightarrow> error + search_options" where
  "duplicate_options keys values =
     (case keys of
        Arr ks \<Rightarrow>
          (case js_length values of
             None \<Rightarrow> Inl TypeError
           | Some n \<Rightarrow>
               if Num (int (length ks)) \<noteq> n then
                 Inl (BadRequestError
                   (''size of '' @ to_string keys @ '' and '' @ to_string values @ '' do not match.''))
               else
                 Inr (fold (\<lambda>(key, index) options.
                             set_property (to_string key) (Eq (js_index values index)) options)
                        (zip ks [0 ..< length ks]) []))
      | _ \<Rightarrow> Inr (set_property (to_string keys) (Eq values) []))"

text \<open>
  The message of the conflict (lines 131-149). The loop \<^verbatim>\<open>for (const i in keys)\<close> runs
  over the indices of the array.
\<close>

definition conflict_message :: "string \<Rightarrow> jsval \<Rightarrow> jsval \<Rightarrow> string" where
  "conflict_message tableName keys values =
     (case keys of
        Arr ks \<Rightarrow>
          fold (\<lambda>i str.
                  let key = js_index keys i;
                      value = js_index values i;
                      str = str @ to_string key @ '': '' @ to_string value
                  in if int i < int (length ks) - 1 then str @ '', '' else str)
               [0 ..< length ks] (tableName @ '' with [ '')
          @ '' ] already exists''
      | _ \<Rightarrow> tableName @ '' with '' @ to_string keys @ '': '' @ to_string values @ '' already exists'')"

text \<open>\<^verbatim>\<open>validateDuplicate\<close> (lines 113-151).\<close>

definition validateDuplicate :: "world \<Rightarrow> string \<Rightarrow> jsval \<Rightarrow> jsval \<Rightarrow> (error + unit) \<times> world" where
  "validateDuplicate w tableName keys values =
     (case duplicate_options keys values of
        Inl e \<Rightarrow> (Inl e, w)
      | Inr options \<Rightarrow>
          (case search w tableName options of
             (Inl e, w') \<Rightarrow> (Inl e, w')
           | (Inr records, w') \<Rightarrow>
               if length records > 0
               then (Inl (ConflictError (conflict_message tableName keys values)), w')
               else (Inr (), w')))"

text \<open>
  \<^verbatim>\<open>dbItem.save((err) => ...)\<close> inside a promise, as \<open>create\<close> (lines 163-169) and
  \<open>update\<close> (lines 184-190) call it.
\<close>

definition save_item :: "world \<Rightarrow> handle \<Rightarrow> (error + handle) \<times> world" where
  "save_item w dbItem =
     (case heap w dbItem of
        None \<Rightarrow> (Inl TypeError, w)
      | Some it \<Rightarrow>
          if \<not> has_method it ''save'' then (Inl TypeError, w)
          else (case save_exec it w of
                  (Some err, w') \<Rightarrow> (Inl (Backend err), w')
                | (None, w') \<Rightarrow> (Inr dbItem, w')))"

text \<open>
  \<^verbatim>\<open>create\<close> (lines 160-171). The constructor of the model is the library's: the
  handle it returns has the properties of \<^verbatim>\<open>data\<close> as its fields.
\<close>

definition create :: "world \<Rightarrow> string \<Rightarrow> document \<Rightarrow> (error + handle) \<times> world" where
  "create w tableName data =
     (case models w tableName of
        None \<Rightarrow> (Inl TypeError, w)
      | Some m \<Rightarrow>
          (case alloc \<lparr>item_model = m, item_proto = ModelProto, item_fields = data\<rparr> w of
             (dbItem, w1) \<Rightarrow> save_item w1 dbItem))"

text \<open>
  \<^verbatim>\<open>update\<close> (lines 179-192): every key of \<^verbatim>\<open>data\<close> is written to the handle, then
  the handle is saved. \<^verbatim>\<open>Object.keys(data)\<close> lists every own key of \<^verbatim>\<open>data\<close> once.
\<close>

definition assign_fields :: "document \<Rightarrow> item \<Rightarrow> item" where
  "assign_fields data it =
     fold (\<lambda>key dbItem. assign_property key (get_attr data key) dbItem)
       (remdups (map fst data)) it"

definition update :: "world \<Rightarrow> handle \<Rightarrow> document \<Rightarrow> (error + handle) \<times> world" where
  "update w dbItem data =
     (case heap w dbItem of
        None \<Rightarrow> (Inl TypeError, w)
      | Some it \<Rightarrow> save_item (w\<lparr>heap := (heap w)(dbItem \<mapsto> assign_fields data it)\<rparr>) dbItem)"

text \<open>\<^verbatim>\<open>delete\<close> (lines 198-208).\<close>

definition delete :: "world \<Rightarrow> handle \<Rightarrow> (error + handle) \<times> world" where
  "delete w dbItem =
     (case heap w dbItem of
        None \<Rightarrow> (Inl TypeError, w)
      | Some it \<Rightarrow>
          if \<not> has_method it ''delete'' then (Inl TypeError, w)
          else (case delete_exec it w of
                  (Some err, w') \<Rightarrow> (Inl (Backend err), w')
                | (None, w') \<Rightarrow> (Inr dbItem, w')))"

section \<open>The pairs a duplicate check covers\<close>

text \<open>
  The key/value pairs that \<open>validateDuplicate\<close> is asked to check: position by position
  for an array of keys, the one pair of the two arguments otherwise.
\<close>

definition checked_pairs :: "jsval \<Rightarrow> jsval \<Rightarrow> (jsval \<times> jsval) list" where
  "checked_pairs keys values =
     (case keys of
        Arr ks \<Rightarrow> map (\<lambda>i. (ks ! i, js_index values i)) [0 ..< length ks]
      | _ \<Rightarrow> [(keys, values)])"

definition pair_text :: "jsval \<times> jsval \<Rightarrow> string" where
  "pair_text p = to_string (fst p) @ '': '' @ to_string (snd p)"

text \<open>
  The options that the assignments \<^verbatim>\<open>options[key] = { eq: value }\<close> of the source
  leave, pair after pair.
\<close>

definition induced_options :: "jsval \<Rightarrow> jsval \<Rightarrow> search_options" where
  "induced_options keys values =
     fold (\<lambda>(k, v) options. set_property (to_string k) (Eq v) options) (checked_pairs keys values) []"

text \<open>
  The equality search of the specification: one criterion \<^verbatim>\<open>{ eq: value }\<close> under
  the name of every key checked, a later pair replacing an earlier one of the same name.
\<close>

definition equality_options :: "jsval \<Rightarrow> jsval \<Rightarrow> search_options" where
  "equality_options keys values =
     fold (\<lambda>(k, v) options. AList.update (to_string k) (Eq v) options) (checked_pairs keys values) []"

section \<open>A sample configuration\<close>

text \<open>The \<^verbatim>\<open>countries\<close> table of \<^verbatim>\<open>src/docs/DynamoDB.md\<close>, and a service over it.\<close>

definition Country :: entity where
  "Country =
     \<lparr>entity_fields =
        [(''id'', [(''type'', ''String''), (''hashKey'', ''true''), (''required'', ''true'')]),
         (''name'', [(''type'', ''String''), (''required'', ''true'')]),
         (''countryFlag'', [(''type'', ''String''), (''required'', ''true'')]),
         (''countryCode'', [(''type'', ''String''), (''required'', ''true'')]),
         (''isDeleted'', [(''type'', ''Boolean''), (''default'', ''false'')])],
      entity_options = [(''throughput'', ''read: 10, write: 5'')]\<rparr>"

definition empty_world :: world where
  "empty_world =
     \<lparr>models = Map.empty, pending = [], heap = Map.empty, next_handle = 0,
      tables = (\<lambda>t. []), outcomes = [], calls = []\<rparr>"

definition countries_service :: world where
  "countries_service =
     run_pending (DynamoDbService \<lparr>entities = [(''countries'', Country)]\<rparr> empty_world)"

definition canada :: document where
  "canada =
     [(''id'', Str ''c1''), (''name'', Str ''Canada''), (''countryCode'', Str ''CAN''),
      (''isDeleted'', Bool False)]"

text \<open>The service after \<open>create\<close> has stored Canada: handle 0 is the created record.\<close>

definition canada_world :: world where
  "canada_world = snd (create countries_service ''countries'' canada)"

text \<open>The same state when the database is about to refuse the next call.\<close>

definition throttled_world :: world where
  "throttled_world = canada_world\<lparr>outcomes := [Some ''ProvisionedThroughputExceededException'']\<rparr>"

section \<open>What the database calls and the operations leave unchanged\<close>

lemma backend_call_simps:
  "fst (backend_call req w) = next_outcome w"
  "models (snd (backend_call req w)) = models w"
  "pending (snd (backend_call req w)) = pending w"
  "heap (snd (backend_call req w)) = heap w"
  "next_handle (snd (backend_call req w)) = next_handle w"
  "tables (snd (backend_call req w)) = tables w"
  "outcomes (snd (backend_call req w)) = tl (outcomes w)"
  "calls (snd (backend_call req w)) = calls w @ [req]"
  by (simp_all add: backend_call_def)

lemma alloc_all_frame:
  "alloc_all m ds w = (hs, w') \<Longrightarrow>
     models w' = models w \<and> pending w' = pending w \<and> tables w' = tables w \<and>
     outcomes w' = outcomes w \<and> calls w' = calls w"
  by (induction ds arbitrary: w hs w') (auto simp: alloc_def split: prod.splits)

lemma scan_exec_frame:
  "scan_exec m opts w = (r, w') \<Longrightarrow>
     models w' = models w \<and> pending w' = pending w \<and> tables w' = tables w \<and>
     outcomes w' = tl (outcomes w) \<and> calls w' = calls w @ [ScanReq (model_name m) opts]"
  by (auto simp: scan_exec_def backend_call_def split: option.splits prod.splits dest: alloc_all_frame)

lemma scan_exec_fails:
  "next_outcome w = Some e \<Longrightarrow>
     scan_exec m opts w =
       (Inl e, w\<lparr>outcomes := tl (outcomes w), calls := calls w @ [ScanReq (model_name m) opts]\<rparr>)"
  by (simp add: scan_exec_def backend_call_def)

lemma query_exec_frame:
  "query_exec m key v w = (r, w') \<Longrightarrow>
     models w' = models w \<and> pending w' = pending w \<and> tables w' = tables w \<and>
     outcomes w' = tl (outcomes w) \<and> calls w' = calls w @ [QueryReq (model_name m) key v]"
  by (auto simp: query_exec_def backend_call_def split: option.splits prod.splits dest: alloc_all_frame)

lemma query_exec_fails:
  "next_outcome w = Some e \<Longrightarrow>
     query_exec m key v w =
       (Inl e, w\<lparr>outcomes := tl (outcomes w), calls := calls w @ [QueryReq (model_name m) key v]\<rparr>)"
  by (simp add: query_exec_def backend_call_def)

lemma save_exec_fails:
  "next_outcome w = Some e \<Longrightarrow>
     save_exec it w =
       (Some e, w\<lparr>outcomes := tl (outcomes w),
                 calls := calls w @ [PutReq (model_name (item_model it)) (item_fields it)]\<rparr>)"
  by (simp add: save_exec_def backend_call_def)

lemma delete_exec_fails:
  "next_outcome w = Some e \<Longrightarrow>
     delete_exec it w =
       (Some e, w\<lparr>outcomes := tl (outcomes w),
                 calls := calls w @ [DeleteReq (model_name (item_model it)) (item_fields it)]\<rparr>)"
  by (simp add: delete_exec_def backend_call_def)

lemma save_exec_frame:
  "save_exec it w = (r, w') \<Longrightarrow> models w' = models w \<and> pending w' = pending w \<and> heap w' = heap w"
  by (auto simp: save_exec_def backend_call_def split: option.splits)

lemma delete_exec_frame:
  "delete_exec it w = (r, w') \<Longrightarrow> models w' = models w \<and> pending w' = pending w \<and> heap w' = heap w"
  by (auto simp: delete_exec_def backend_call_def split: option.splits)

lemma search_frame:
  "search w t opts = (r, w') \<Longrightarrow> models w' = models w \<and> pending w' = pending w"
  by (auto simp: search_def split: option.splits prod.splits sum.splits dest: scan_exec_frame)

lemma getById_frame:
  "getById w t i = (r, w') \<Longrightarrow> models w' = models w \<and> pending w' = pending w"
  by (auto simp: getById_def split: option.splits prod.splits sum.splits if_splits dest: query_exec_frame)

lemma validateDuplicate_frame:
  "validateDuplicate w t ks vs = (r, w') \<Longrightarrow> models w' = models w \<and> pending w' = pending w"
  by (auto simp: validateDuplicate_def split: prod.splits sum.splits if_splits dest: search_frame)

lemma save_item_frame:
  "save_item w h = (r, w') \<Longrightarrow> models w' = models w \<and> pending w' = pending w"
  by (auto simp: save_item_def split: option.splits prod.splits if_splits dest: save_exec_frame)

lemma create_frame:
  "create w t d = (r, w') \<Longrightarrow> models w' = models w \<and> pending w' = pending w"
  by (auto simp: create_def alloc_def split: option.splits prod.splits dest: save_item_frame)

lemma update_frame:
  "update w h d = (r, w') \<Longrightarrow> models w' = models w \<and> pending w' = pending w"
  by (auto simp: update_def split: option.splits dest: save_item_frame)

lemma delete_frame:
  "delete w h = (r, w') \<Longrightarrow> models w' = models w \<and> pending w' = pending w"
  by (auto simp: delete_def split: option.splits prod.splits if_splits dest: delete_exec_frame)

section \<open>The sample states, evaluated\<close>

lemma countries_service_eq:
  "countries_service =
     \<lparr>models = [''countries'' \<mapsto> getDynamooseModel ''countries'' Country], pending = [],
      heap = Map.empty, next_handle = 0, tables = (\<lambda>t. []), outcomes = [], calls = []\<rparr>"
  by (simp add: countries_service_def run_pending_def DynamoDbService_def
    List.map_filter_simps empty_world_def)

lemma canada_world_eq:
  "canada_world =
     \<lparr>models = [''countries'' \<mapsto> getDynamooseModel ''countries'' Country], pending = [],
      heap = [0 \<mapsto> \<lparr>item_model = getDynamooseModel ''countries'' Country, item_proto = ModelProto, item_fields = canada\<rparr>],
      next_handle = Suc 0,
      tables = (\<lambda>t. [])(''countries'' := [canada]),
      outcomes = [], calls = [PutReq ''countries'' canada]\<rparr>"
  by (simp add: canada_world_def countries_service_eq create_def alloc_def save_item_def
    save_exec_def backend_call_def has_method_def next_outcome_def getDynamooseModel_def canada_def)

section \<open>The table-model mapping\<close>

lemma pending_models_dom:
  "dom (fold (\<lambda>(key, m) ms. ms(key \<mapsto> m)) ps ms0) = dom ms0 \<union> fst ` set ps"
  by (induction ps arbitrary: ms0) (auto split: prod.splits)

lemma pending_models_name:
  assumes "\<forall>(k, m) \<in> set ps. model_name m = k"
    and "\<forall>k m. ms0 k = Some m \<longrightarrow> model_name m = k"
    and "fold (\<lambda>(key, m) ms. ms(key \<mapsto> m)) ps ms0 k = Some m"
  shows "model_name m = k"
  using assms
proof (induction ps arbitrary: ms0)
  case Nil
  then show ?case by simp
next
  case (Cons p ps)
  obtain k' m' where p: "p = (k', m')" by (cases p)
  from Cons.prems(1) p have nm: "model_name m' = k'" by simp
  have inv: "\<forall>k m. (ms0(k' \<mapsto> m')) k = Some m \<longrightarrow> model_name m = k"
    using Cons.prems(2) nm by simp
  from Cons.prems(1) have rest: "\<forall>(k, m) \<in> set ps. model_name m = k" by simp
  from Cons.prems(3) p have "fold (\<lambda>(key, m) ms. ms(key \<mapsto> m)) ps (ms0(k' \<mapsto> m')) k = Some m"
    by (simp del: fun_upd_apply)
  from Cons.IH [OF rest inv this] show ?case .
qed

lemma constructor_pending:
  "pending (DynamoDbService cfg w) =
     map (\<lambda>key. (key, getDynamooseModel key (the (map_of (entities cfg) key)))) (map fst (entities cfg))"
proof -
  have "\<And>ks. set ks \<subseteq> fst ` set (entities cfg) \<Longrightarrow>
      List.map_filter (\<lambda>key. map_option (\<lambda>e. (key, getDynamooseModel key e)) (map_of (entities cfg) key)) ks
      = map (\<lambda>key. (key, getDynamooseModel key (the (map_of (entities cfg) key)))) ks"
  proof -
    fix ks show "set ks \<subseteq> fst ` set (entities cfg) \<Longrightarrow>
      List.map_filter (\<lambda>key. map_option (\<lambda>e. (key, getDynamooseModel key e)) (map_of (entities cfg) key)) ks
      = map (\<lambda>key. (key, getDynamooseModel key (the (map_of (entities cfg) key)))) ks"
    proof (induction ks)
      case Nil then show ?case by simp
    next
      case (Cons k ks)
      then obtain e where "map_of (entities cfg) k = Some e"
        by (metis (no_types, lifting) domD dom_map_of_conv_image_fst insert_subset list.simps(15))
      with Cons show ?case by simp
    qed
  qed
  then show ?thesis by (simp add: DynamoDbService_def)
qed

lemma constructor_models_dom:
  "dom (models (run_pending (DynamoDbService cfg w))) = fst ` set (entities cfg)"
proof -
  have "models (DynamoDbService cfg w) = Map.empty" by (simp add: DynamoDbService_def)
  then show ?thesis
    by (simp add: run_pending_def pending_models_dom constructor_pending image_image)
qed

lemma constructor_models_name:
  assumes "models (run_pending (DynamoDbService cfg w)) k = Some m"
  shows "model_name m = k"
proof -
  have 1: "\<forall>(k, m) \<in> set (pending (DynamoDbService cfg w)). model_name m = k"
    by (auto simp: constructor_pending getDynamooseModel_def)
  have 2: "\<forall>k m. models (DynamoDbService cfg w) k = Some m \<longrightarrow> model_name m = k"
    by (simp add: DynamoDbService_def)
  from assms show ?thesis
    using pending_models_name [OF 1 2] by (simp add: run_pending_def)
qed

text \<open>
  Claim C8. The table-model mapping is keyed by logical table name and is fixed after the
  service is constructed: none of \<open>search\<close>, \<open>getById\<close>, \<open>validateDuplicate\<close>,
  \<open>create\<close>, \<open>update\<close> and \<open>delete\<close> adds, removes or replaces an entry of
  \<^verbatim>\<open>this.models\<close>. Once the assignments scheduled by the constructor have run, the
  keys of the mapping are the keys of \<^verbatim>\<open>config.entities\<close>, and the model under a key
  bears that key as its table name.
\<close>

theorem models_fixed:
  "models (snd (search w tableName searchOptions)) = models w
   \<and> models (snd (getById w tableName ident)) = models w
   \<and> models (snd (validateDuplicate w tableName keys values)) = models w
   \<and> models (snd (create w tableName data)) = models w
   \<and> models (snd (update w dbItem data)) = models w
   \<and> models (snd (delete w dbItem)) = models w
   \<and> dom (models (run_pending (DynamoDbService cfg w))) = fst ` set (entities cfg)
   \<and> map_option model_name (models (run_pending (DynamoDbService cfg w)) tableName) =
       (if tableName \<in> fst ` set (entities cfg) then Some tableName else None)"
proof -
  have s: "models (snd (search w tableName searchOptions)) = models w"
    using search_frame [of w tableName searchOptions] by (simp add: prod_eq_iff)
  have g: "models (snd (getById w tableName ident)) = models w"
    using getById_frame [of w tableName ident] by (simp add: prod_eq_iff)
  have v: "models (snd (validateDuplicate w tableName keys values)) = models w"
    using validateDuplicate_frame [of w tableName keys "values"] by (simp add: prod_eq_iff)
  have c: "models (snd (create w tableName data)) = models w"
    using create_frame [of w tableName data] by (simp add: prod_eq_iff)
  have u: "models (snd (update w dbItem data)) = models w"
    using update_frame [of w dbItem data] by (simp add: prod_eq_iff)
  have d: "models (snd (delete w dbItem)) = models w"
    using delete_frame [of w dbItem] by (simp add: prod_eq_iff)
  have k: "dom (models (run_pending (DynamoDbService cfg w))) = fst ` set (entities cfg)"
    by (rule constructor_models_dom)
  have n: "map_option model_name (models (run_pending (DynamoDbService cfg w)) tableName) =
       (if tableName \<in> fst ` set (entities cfg) then Some tableName else None)"
  proof (cases "models (run_pending (DynamoDbService cfg w)) tableName")
    case None
    then have "tableName \<notin> dom (models (run_pending (DynamoDbService cfg w)))" by blast
    with None show ?thesis by (simp add: k)
  next
    case (Some m)
    then have "tableName \<in> dom (models (run_pending (DynamoDbService cfg w)))" by blast
    with Some constructor_models_name [OF Some] show ?thesis by (simp add: k)
  qed
  from s g v c u d k n show ?thesis by blast
qed

section \<open>Arity of a duplicate check\<close>

text \<open>
  Claim C1. When \<open>keys\<close> is an array and \<open>values\<close> an array of another length,
  \<open>validateDuplicate\<close> raises \<open>BadRequest\<close>, whatever the table name, and it does so
  before any database call: the state is the one it started in, and the log of database
  calls has not grown.
\<close>

theorem validateDuplicate_arity_mismatch:
  assumes "length ks \<noteq> length vs"
  shows "validateDuplicate w tableName (Arr ks) (Arr vs) =
           (Inl (BadRequestError
              (''size of '' @ to_string (Arr ks) @ '' and '' @ to_string (Arr vs) @ '' do not match.'')), w)
         \<and> calls (snd (validateDuplicate w tableName (Arr ks) (Arr vs))) = calls w"
  using assms by (simp add: validateDuplicate_def duplicate_options_def)

theorem validateDuplicate_arity_mismatch_witness:
  "length [Str ''name'', Str ''countryCode''] \<noteq> length [Str ''Canada'']
   \<and> validateDuplicate canada_world ''countries'' (Arr [Str ''name'', Str ''countryCode'']) (Arr [Str ''Canada''])
     = (Inl (BadRequestError ''size of name,countryCode and Canada do not match.''), canada_world)
   \<and> calls (snd (validateDuplicate canada_world ''countries'' (Arr [Str ''name'', Str ''countryCode''])
        (Arr [Str ''Canada'']))) = calls canada_world"
  using validateDuplicate_arity_mismatch [of "[Str ''name'', Str ''countryCode'']" "[Str ''Canada'']"
    canada_world "''countries''"]
  by simp

section \<open>Reads that find nothing\<close>

text \<open>
  Claim C3, as amended. For a table name under which the service holds a model and an id
  for which the query succeeds and finds no record, \<open>getById\<close> rejects with
  \<open>NotFound\<close>, and the message names the table and the id.
\<close>

theorem getById_not_found:
  assumes "models w tableName = Some m"
    and "query_exec m ''id'' ident w = (Inr [], w')"
  shows "getById w tableName ident =
           (Inl (NotFoundError
              (tableName @ '' with id: '' @ to_string ident @ '' doesn'' @ [CHR 0x27] @ ''t exist'')), w')
         \<and> sublist tableName
              (tableName @ '' with id: '' @ to_string ident @ '' doesn'' @ [CHR 0x27] @ ''t exist'')
         \<and> sublist (to_string ident)
              (tableName @ '' with id: '' @ to_string ident @ '' doesn'' @ [CHR 0x27] @ ''t exist'')"
proof -
  have "sublist tableName (tableName @ '' with id: '' @ to_string ident @ '' doesn'' @ [CHR 0x27] @ ''t exist'')"
    using sublist_appendI [of tableName "[]"] by simp
  moreover have "sublist (to_string ident)
      (tableName @ '' with id: '' @ to_string ident @ '' doesn'' @ [CHR 0x27] @ ''t exist'')"
    using sublist_appendI [of "to_string ident" "tableName @ '' with id: ''" "'' doesn'' @ [CHR 0x27] @ ''t exist''"]
    by simp
  ultimately show ?thesis using assms by (simp add: getById_def)
qed

theorem getById_not_found_witness:
  "getById canada_world ''countries'' (Num 42) =
     (Inl (NotFoundError (''countries with id: 42 doesn'' @ [CHR 0x27] @ ''t exist'')),
      canada_world\<lparr>calls := calls canada_world @ [QueryReq ''countries'' ''id'' (Num 42)]\<rparr>)
   \<and> sublist ''countries'' (''countries with id: 42 doesn'' @ [CHR 0x27] @ ''t exist'')
   \<and> sublist ''42'' (''countries with id: 42 doesn'' @ [CHR 0x27] @ ''t exist'')"
proof -
  have m: "models canada_world ''countries'' = Some (getDynamooseModel ''countries'' Country)"
    by (simp add: canada_world_eq)
  have q: "query_exec (getDynamooseModel ''countries'' Country) ''id'' (Num 42) canada_world =
      (Inr [], canada_world\<lparr>calls := calls canada_world @ [QueryReq ''countries'' ''id'' (Num 42)]\<rparr>)"
    by (simp add: query_exec_def backend_call_def next_outcome_def canada_world_eq
      getDynamooseModel_def canada_def get_attr_def)
  show ?thesis using getById_not_found [OF m q] by (simp add: int_to_string_def digit_char_def)
qed

text \<open>
  Claim C3 as it is worded, for every table name, fails. Under a name for which
  \<^verbatim>\<open>this.models\<close> holds no model, \<open>getById\<close> rejects with a \<open>TypeError\<close> before
  any query is made, whatever the id. That is so for a configured table in the state the
  constructor returns, while its assignments have not run yet (the table is empty, so the
  id exists nowhere), and for a name that was never configured.
\<close>

theorem getById_not_found_counterexample:
  "getById (DynamoDbService \<lparr>entities = [(''countries'', Country)]\<rparr> empty_world) ''countries'' (Num 42)
     = (Inl TypeError, DynamoDbService \<lparr>entities = [(''countries'', Country)]\<rparr> empty_world)
   \<and> tables (DynamoDbService \<lparr>entities = [(''countries'', Country)]\<rparr> empty_world) ''countries'' = []
   \<and> getById canada_world ''cities'' (Num 42) = (Inl TypeError, canada_world)"
  by (simp add: getById_def DynamoDbService_def empty_world_def canada_world_eq)

text \<open>
  Claim C4. When the scan succeeds and matches no record (its count is zero, or it holds
  no item), \<open>search\<close> resolves with the empty sequence.
\<close>

theorem search_empty:
  assumes "models w tableName = Some m"
    and "scan_exec m searchOptions w = (Inr result, w')"
    and "count result = 0 \<or> items result = []"
  shows "search w tableName searchOptions = (Inr [], w')"
  using assms by (auto simp: search_def)

theorem search_empty_witness:
  "search canada_world ''countries'' [(''name'', Eq (Str ''Mexico''))] =
     (Inr [], canada_world\<lparr>calls := calls canada_world @
        [ScanReq ''countries'' [(''name'', Eq (Str ''Mexico''))]]\<rparr>)"
proof -
  have m: "models canada_world ''countries'' = Some (getDynamooseModel ''countries'' Country)"
    by (simp add: canada_world_eq)
  have s: "scan_exec (getDynamooseModel ''countries'' Country) [(''name'', Eq (Str ''Mexico''))] canada_world =
      (Inr \<lparr>items = [], count = 0\<rparr>, canada_world\<lparr>calls := calls canada_world @
        [ScanReq ''countries'' [(''name'', Eq (Str ''Mexico''))]]\<rparr>)"
    by (simp add: scan_exec_def backend_call_def next_outcome_def canada_world_eq
      getDynamooseModel_def canada_def get_attr_def matches_def)
  have c: "count \<lparr>items = [], count = 0\<rparr> = 0 \<or> items \<lparr>items = [], count = 0\<rparr> = []"
    by simp
  show ?thesis using search_empty [OF m s c] by simp
qed

section \<open>Duplicate checks\<close>

lemma join_strings_Cons:
  "join_strings sep (x # xs) = (if xs = [] then x else x @ sep @ join_strings sep xs)"
  by (cases xs) simp_all

lemma join_strings_member: "x \<in> set xs \<Longrightarrow> sublist x (join_strings sep xs)"
proof (induction sep xs rule: join_strings.induct)
  case (1 sep)
  then show ?case by simp
next
  case (2 sep s)
  then show ?case by simp
next
  case (3 sep s t ss)
  show ?case
  proof (cases "x = s")
    case True
    then show ?thesis by simp
  next
    case False
    with 3 have "sublist x (join_strings sep (t # ss))" by simp
    then obtain ps su where "join_strings sep (t # ss) = ps @ x @ su"
      by (auto simp: sublist_def)
    then have "join_strings sep (s # t # ss) = (s @ sep @ ps) @ x @ su" by simp
    then show ?thesis unfolding sublist_def by blast
  qed
qed

lemma conflict_loop:
  "fold (\<lambda>i str.
           let key = js_index keys i;
               value = js_index values i;
               str = str @ to_string key @ '': '' @ to_string value
           in if int i < int n - 1 then str @ '', '' else str)
        [a ..< n] acc
   = acc @ join_strings '', ''
       (map (\<lambda>i. to_string (js_index keys i) @ '': '' @ to_string (js_index values i)) [a ..< n])"
proof (induction "n - a" arbitrary: a acc)
  case 0
  then show ?case by simp
next
  case (Suc d)
  then have lt: "a < n" and d: "d = n - Suc a" by simp_all
  have rest: "([Suc a ..< n] = []) = (\<not> int a < int n - 1)" using lt by auto
  show ?case
    using Suc.hyps(1) [OF d] lt rest
    by (simp add: upt_conv_Cons join_strings_Cons Let_def del: upt_Suc)
qed

lemma checked_pairs_text:
  "map pair_text (checked_pairs (Arr ks) values) =
     map (\<lambda>i. to_string (js_index (Arr ks) i) @ '': '' @ to_string (js_index values i)) [0 ..< length ks]"
  by (simp add: checked_pairs_def pair_text_def)

lemma conflict_message_array:
  "conflict_message tableName (Arr ks) values =
     tableName @ '' with [ '' @ join_strings '', '' (map pair_text (checked_pairs (Arr ks) values))
       @ '' ] already exists''"
  unfolding checked_pairs_text conflict_message_def
  by (simp only: jsval.case conflict_loop append_assoc)

lemma conflict_message_scalar:
  "\<not> isArray keys \<Longrightarrow>
     conflict_message tableName keys values =
       tableName @ '' with '' @ pair_text (keys, values) @ '' already exists''"
  by (cases keys) (simp_all add: conflict_message_def pair_text_def)

lemma conflict_message_form:
  "conflict_message tableName keys values =
     (if isArray keys
      then tableName @ '' with [ '' @ join_strings '', '' (map pair_text (checked_pairs keys values))
             @ '' ] already exists''
      else tableName @ '' with '' @ pair_text (keys, values) @ '' already exists'')"
  by (cases keys) (simp_all add: conflict_message_array conflict_message_scalar)

lemma conflict_message_pair:
  assumes "p \<in> set (checked_pairs keys values)"
  shows "sublist (pair_text p) (conflict_message tableName keys values)"
proof (cases "isArray keys")
  case True
  from assms have "pair_text p \<in> set (map pair_text (checked_pairs keys values))" by simp
  then have "sublist (pair_text p) (join_strings '', '' (map pair_text (checked_pairs keys values)))"
    by (rule join_strings_member)
  then obtain ps su where
    "join_strings '', '' (map pair_text (checked_pairs keys values)) = ps @ pair_text p @ su"
    by (auto simp: sublist_def)
  then have "conflict_message tableName keys values =
      (tableName @ '' with [ '' @ ps) @ pair_text p @ (su @ '' ] already exists'')"
    using True by (simp add: conflict_message_form)
  then show ?thesis unfolding sublist_def by blast
next
  case False
  then have "checked_pairs keys values = [(keys, values)]"
    by (cases keys) (simp_all add: checked_pairs_def)
  with assms have p: "p = (keys, values)" by simp
  have "conflict_message tableName keys values =
      (tableName @ '' with '') @ pair_text p @ '' already exists''"
    using False p by (simp add: conflict_message_form)
  then show ?thesis unfolding sublist_def by blast
qed

lemma zip_indices: "zip ks [0 ..< length ks] = map (\<lambda>i. (ks ! i, i)) [0 ..< length ks]"
  by (rule nth_equalityI) simp_all

lemma duplicate_options_array:
  assumes "js_length values = Some (Num (int (length ks)))"
  shows "duplicate_options (Arr ks) values = Inr (induced_options (Arr ks) values)"
  using assms
  by (simp add: duplicate_options_def induced_options_def checked_pairs_def zip_indices
      fold_map comp_def)

lemma duplicate_options_scalar:
  "\<not> isArray keys \<Longrightarrow>
     duplicate_options keys values = Inr (set_property (to_string keys) (Eq values) [])"
  by (cases keys) (simp_all add: duplicate_options_def)

lemma induced_options_scalar:
  "\<not> isArray keys \<Longrightarrow> induced_options keys values = set_property (to_string keys) (Eq values) []"
  by (cases keys) (simp_all add: induced_options_def checked_pairs_def)

lemma search_error_kind:
  "search w t opts = (Inl e, w') \<Longrightarrow> e = TypeError \<or> (\<exists>b. e = Backend b)"
  by (auto simp: search_def split: option.splits prod.splits sum.splits)


lemma duplicate_options_induced:
  assumes "isArray keys \<longrightarrow> js_length values = js_length keys"
  shows "duplicate_options keys values = Inr (induced_options keys values)"
proof (cases "isArray keys")
  case True
  then obtain ks where ks: "keys = Arr ks" by (cases keys) simp_all
  with assms have "js_length values = Some (Num (int (length ks)))" by simp
  then show ?thesis unfolding ks by (rule duplicate_options_array)
next
  case False
  then show ?thesis by (simp add: duplicate_options_scalar induced_options_scalar)
qed

lemma fold_set_property_plain:
  assumes "\<forall>p \<in> set ps. to_string (fst p) \<noteq> ''__proto__''"
  shows "fold (\<lambda>(k, v) options. set_property (to_string k) (Eq v) options) ps acc =
         fold (\<lambda>(k, v) options. AList.update (to_string k) (Eq v) options) ps acc"
  using assms by (induction ps arbitrary: acc) (auto simp: set_property_def)

lemma induced_options_equality:
  assumes "\<forall>p \<in> set (checked_pairs keys values). to_string (fst p) \<noteq> ''__proto__''"
  shows "induced_options keys values = equality_options keys values"
  using fold_set_property_plain [OF assms] by (simp add: induced_options_def equality_options_def)

text \<open>
  What \<open>validateDuplicate\<close> does with keys and values of matching arity. It searches
  with the options it has built and raises \<open>Conflict\<close> exactly when that search returns
  one or more records, with a message that has the text \<open>key: value\<close> of every pair
  checked (inside \<open>[ ... ]\<close> and separated by commas for an array of keys, alone for a
  single key); it returns with no value when the search returns no record.
\<close>

lemma validateDuplicate_outcome:
  assumes "isArray keys \<longrightarrow> js_length values = js_length keys"
  shows "duplicate_options keys values = Inr (induced_options keys values)
     \<and> ((\<exists>msg. fst (validateDuplicate w tableName keys values) = Inl (ConflictError msg)) =
        (\<exists>records. fst (search w tableName (induced_options keys values)) = Inr records \<and> records \<noteq> []))
     \<and> (\<forall>msg. fst (validateDuplicate w tableName keys values) = Inl (ConflictError msg) \<longrightarrow>
          msg = conflict_message tableName keys values)
     \<and> (fst (search w tableName (induced_options keys values)) = Inr [] \<longrightarrow>
          validateDuplicate w tableName keys values =
            (Inr (), snd (search w tableName (induced_options keys values))))
     \<and> conflict_message tableName keys values =
         (if isArray keys
          then tableName @ '' with [ '' @ join_strings '', '' (map pair_text (checked_pairs keys values))
                 @ '' ] already exists''
          else tableName @ '' with '' @ pair_text (keys, values) @ '' already exists'')
     \<and> (\<forall>p \<in> set (checked_pairs keys values).
          sublist (pair_text p) (conflict_message tableName keys values))"
proof -
  let ?s = "search w tableName (induced_options keys values)"
  have opts: "duplicate_options keys values = Inr (induced_options keys values)"
    using assms by (rule duplicate_options_induced)
  obtain r w' where s: "?s = (r, w')" by (cases ?s)
  have v: "validateDuplicate w tableName keys values =
      (case r of
         Inl e \<Rightarrow> (Inl e, w')
       | Inr records \<Rightarrow>
           if length records > 0
           then (Inl (ConflictError (conflict_message tableName keys values)), w')
           else (Inr (), w'))"
    by (simp add: validateDuplicate_def opts s split: sum.splits)
  have noconf: "\<And>e msg. r = Inl e \<Longrightarrow> e \<noteq> ConflictError msg"
    using search_error_kind [of w tableName "induced_options keys values" _ w'] s by auto
  have c1: "(\<exists>msg. fst (validateDuplicate w tableName keys values) = Inl (ConflictError msg)) =
        (\<exists>records. fst ?s = Inr records \<and> records \<noteq> [])"
    using noconf by (cases r) (auto simp: v s)
  have c2: "\<forall>msg. fst (validateDuplicate w tableName keys values) = Inl (ConflictError msg) \<longrightarrow>
          msg = conflict_message tableName keys values"
    using noconf by (cases r) (auto simp: v split: if_splits)
  have c3: "fst ?s = Inr [] \<longrightarrow> validateDuplicate w tableName keys values = (Inr (), snd ?s)"
    by (auto simp: v s)
  have c5: "\<forall>p \<in> set (checked_pairs keys values).
          sublist (pair_text p) (conflict_message tableName keys values)"
    using conflict_message_pair by blast
  from opts c1 c2 c3 conflict_message_form [of tableName keys "values"] c5 show ?thesis by blast
qed

text \<open>
  When no key is named \<^verbatim>\<open>__proto__\<close>, the options built are the equality search of
  the specification, and the duplicate check is as the specification has it.
\<close>

lemma validateDuplicate_conflict_plain_keys:
  assumes "isArray keys \<longrightarrow> js_length values = js_length keys"
    and "\<forall>p \<in> set (checked_pairs keys values). to_string (fst p) \<noteq> ''__proto__''"
  shows "duplicate_options keys values = Inr (equality_options keys values)
     \<and> ((\<exists>msg. fst (validateDuplicate w tableName keys values) = Inl (ConflictError msg)) =
        (\<exists>records. fst (search w tableName (equality_options keys values)) = Inr records \<and> records \<noteq> []))
     \<and> (fst (search w tableName (equality_options keys values)) = Inr [] \<longrightarrow>
          validateDuplicate w tableName keys values =
            (Inr (), snd (search w tableName (equality_options keys values))))
     \<and> (\<forall>p \<in> set (checked_pairs keys values).
          sublist (pair_text p) (conflict_message tableName keys values))"
proof -
  have e: "induced_options keys values = equality_options keys values"
    using assms(2) by (rule induced_options_equality)
  show ?thesis
    using validateDuplicate_outcome [OF assms(1), of w tableName] unfolding e by blast
qed

lemma canada_scan:
  "search canada_world ''countries'' (equality_options (Arr [Str ''name'', Str ''countryCode''])
       (Arr [Str ''Canada'', Str ''CAN''])) =
     (Inr [Suc 0], canada_world\<lparr>heap := (heap canada_world)
         (Suc 0 \<mapsto> \<lparr>item_model = getDynamooseModel ''countries'' Country, item_proto = ModelProto,
                       item_fields = canada\<rparr>),
       next_handle := Suc (Suc 0),
       calls := calls canada_world @ [ScanReq ''countries''
         [(''name'', Eq (Str ''Canada'')), (''countryCode'', Eq (Str ''CAN''))]]\<rparr>)"
  by (simp add: search_def scan_exec_def backend_call_def next_outcome_def canada_world_eq
      equality_options_def checked_pairs_def upt_conv_Cons alloc_def
      getDynamooseModel_def canada_def get_attr_def matches_def)

lemma validateDuplicate_conflict_example:
  "fst (validateDuplicate canada_world ''countries'' (Arr [Str ''name'', Str ''countryCode''])
         (Arr [Str ''Canada'', Str ''CAN''])) =
     Inl (ConflictError ''countries with [ name: Canada, countryCode: CAN ] already exists'')"
proof -
  have a: "isArray (Arr [Str ''name'', Str ''countryCode'']) \<longrightarrow>
      js_length (Arr [Str ''Canada'', Str ''CAN'']) = js_length (Arr [Str ''name'', Str ''countryCode''])"
    by simp
  have p: "checked_pairs (Arr [Str ''name'', Str ''countryCode'']) (Arr [Str ''Canada'', Str ''CAN'']) =
      [(Str ''name'', Str ''Canada''), (Str ''countryCode'', Str ''CAN'')]"
    by (simp add: checked_pairs_def upt_conv_Cons)
  have b: "\<forall>p \<in> set (checked_pairs (Arr [Str ''name'', Str ''countryCode''])
      (Arr [Str ''Canada'', Str ''CAN''])). to_string (fst p) \<noteq> ''__proto__''"
    by (simp add: p)
  show ?thesis
    using validateDuplicate_conflict_plain_keys [OF a b, of canada_world "''countries''"]
      validateDuplicate_outcome [OF a, of canada_world "''countries''"]
    by (auto simp: canada_scan p pair_text_def)
qed

text \<open>
  Claim C2 (with keys and values of matching arity, \<open>validateDuplicate\<close> raises
  \<open>Conflict\<close> exactly when the induced equality search returns one or more records)
  fails on the code at a key named \<^verbatim>\<open>__proto__\<close>. The assignment
  \<^verbatim>\<open>options[key] = { eq: values[index] }\<close> (line 123) then sets the prototype of
  \<^verbatim>\<open>options\<close> and adds no criterion: the options built are empty, the scan is not
  filtered, and \<open>validateDuplicate\<close> raises \<open>Conflict\<close> on a table that holds any
  record, although the equality search for the pair checked returns none. Here the table
  holds Canada alone, which has no attribute \<^verbatim>\<open>__proto__\<close>.
\<close>

theorem validateDuplicate_proto_key_conflict:
  "duplicate_options (Arr [Str ''__proto__'']) (Arr [Str ''x'']) = Inr []
   \<and> equality_options (Arr [Str ''__proto__'']) (Arr [Str ''x'']) = [(''__proto__'', Eq (Str ''x''))]
   \<and> fst (search canada_world ''countries''
           (equality_options (Arr [Str ''__proto__'']) (Arr [Str ''x'']))) = Inr []
   \<and> fst (validateDuplicate canada_world ''countries'' (Arr [Str ''__proto__'']) (Arr [Str ''x''])) =
       Inl (ConflictError ''countries with [ __proto__: x ] already exists'')"
  by (simp add: validateDuplicate_def duplicate_options_def set_property_def conflict_message_def
      equality_options_def checked_pairs_def search_def scan_exec_def backend_call_def
      next_outcome_def canada_world_eq alloc_def getDynamooseModel_def canada_def get_attr_def
      matches_def)

text \<open>
  A key that is not an array: no arity check takes place and no outcome is
  \<open>BadRequest\<close>, whatever \<open>values\<close> is; the search is made with what the one
  assignment \<^verbatim>\<open>options[keys] = { eq: values }\<close> leaves.
\<close>

lemma validateDuplicate_scalar_key_outcome:
  assumes "\<not> isArray keys"
  shows "duplicate_options keys values = Inr (set_property (to_string keys) (Eq values) [])
     \<and> (\<forall>msg. fst (validateDuplicate w tableName keys values) \<noteq> Inl (BadRequestError msg))
     \<and> validateDuplicate w tableName keys values =
         (case search w tableName (set_property (to_string keys) (Eq values) []) of
            (Inl e, w') \<Rightarrow> (Inl e, w')
          | (Inr records, w') \<Rightarrow>
              (if records \<noteq> []
               then Inl (ConflictError
                 (tableName @ '' with '' @ to_string keys @ '': '' @ to_string values @ '' already exists''))
               else Inr (), w'))"
proof -
  let ?opts = "set_property (to_string keys) (Eq values) []"
  let ?s = "search w tableName ?opts"
  have opts: "duplicate_options keys values = Inr ?opts"
    using assms by (rule duplicate_options_scalar)
  have msg: "conflict_message tableName keys values =
      tableName @ '' with '' @ to_string keys @ '': '' @ to_string values @ '' already exists''"
    using assms by (simp add: conflict_message_scalar pair_text_def)
  obtain r w' where s: "?s = (r, w')" by (cases ?s)
  have v: "validateDuplicate w tableName keys values =
         (case ?s of
            (Inl e, w') \<Rightarrow> (Inl e, w')
          | (Inr records, w') \<Rightarrow>
              (if records \<noteq> []
               then Inl (ConflictError
                 (tableName @ '' with '' @ to_string keys @ '': '' @ to_string values @ '' already exists''))
               else Inr (), w'))"
    by (simp add: validateDuplicate_def opts msg s split: sum.splits)
  have "\<forall>msg. fst (validateDuplicate w tableName keys values) \<noteq> Inl (BadRequestError msg)"
    using search_error_kind [of w tableName ?opts _ w'] s
    by (cases r) (auto simp: v split: if_splits)
  with opts v show ?thesis by blast
qed

text \<open>
  When the key is not named \<^verbatim>\<open>__proto__\<close> it is paired with the whole of \<open>values\<close>
  as the one equality criterion of the search.
\<close>

lemma validateDuplicate_scalar_key_plain:
  assumes "\<not> isArray keys" and "to_string keys \<noteq> ''__proto__''"
  shows "duplicate_options keys values = Inr [(to_string keys, Eq values)]
     \<and> validateDuplicate w tableName keys values =
         (case search w tableName [(to_string keys, Eq values)] of
            (Inl e, w') \<Rightarrow> (Inl e, w')
          | (Inr records, w') \<Rightarrow>
              (if records \<noteq> []
               then Inl (ConflictError
                 (tableName @ '' with '' @ to_string keys @ '': '' @ to_string values @ '' already exists''))
               else Inr (), w'))"
proof -
  have "set_property (to_string keys) (Eq values) [] = [(to_string keys, Eq values)]"
    using assms(2) by (simp add: set_property_def)
  then show ?thesis
    using validateDuplicate_scalar_key_outcome [OF assms(1), of "values" w tableName] by simp
qed

text \<open>
  Claim C9 (for a key that is not an array \<open>validateDuplicate\<close> never raises
  \<open>BadRequest\<close>, and the key is paired with the whole of \<open>values\<close> as a single
  equality criterion) fails on the code at the key \<^verbatim>\<open>__proto__\<close>. No outcome is
  \<open>BadRequest\<close>, but the assignment \<^verbatim>\<open>options[keys] = { eq: values }\<close> (line 126) sets the prototype
  of \<^verbatim>\<open>options\<close> and adds no criterion: the key is not paired with \<open>values\<close>, the scan
  is not filtered, and \<open>validateDuplicate\<close> raises \<open>Conflict\<close> on a table that holds
  any record, although the search with the one criterion returns none.
\<close>

theorem validateDuplicate_scalar_proto_key:
  "duplicate_options (Str ''__proto__'') (Str ''x'') = Inr []
   \<and> fst (search canada_world ''countries'' [(''__proto__'', Eq (Str ''x''))]) = Inr []
   \<and> fst (validateDuplicate canada_world ''countries'' (Str ''__proto__'') (Str ''x'')) =
       Inl (ConflictError ''countries with __proto__: x already exists'')"
  by (simp add: validateDuplicate_def duplicate_options_def set_property_def conflict_message_def
      search_def scan_exec_def backend_call_def
      next_outcome_def canada_world_eq alloc_def getDynamooseModel_def canada_def get_attr_def
      matches_def)

section \<open>Overwriting the fields of a handle\<close>

lemma assign_property_model: "item_model (assign_property key v it) = item_model it"
  by (simp add: assign_property_def split: jsval.splits)

lemma assign_property_field:
  "f \<noteq> ''__proto__'' \<Longrightarrow>
     map_of (item_fields (assign_property key v it)) f =
       (if f = key then Some v else map_of (item_fields it) f)"
  by (auto simp: assign_property_def update_conv' split: jsval.splits)

lemma assign_property_plain:
  "key \<noteq> ''__proto__'' \<Longrightarrow>
     assign_property key v it = it\<lparr>item_fields := AList.update key v (item_fields it)\<rparr>"
  by (simp add: assign_property_def)

lemma assign_fold:
  "item_model (fold (\<lambda>key dbItem. assign_property key (get_attr data key) dbItem) ks it)
     = item_model it
   \<and> (f \<noteq> ''__proto__'' \<longrightarrow>
        map_of (item_fields (fold (\<lambda>key dbItem. assign_property key (get_attr data key) dbItem) ks it)) f
          = (if f \<in> set ks then Some (get_attr data f) else map_of (item_fields it) f))"
  by (induction ks arbitrary: it) (auto simp: assign_property_model assign_property_field)

lemma assign_fold_plain:
  assumes "''__proto__'' \<notin> set ks"
  shows "item_proto (fold (\<lambda>key dbItem. assign_property key (get_attr data key) dbItem) ks it)
           = item_proto it
     \<and> map_of (item_fields (fold (\<lambda>key dbItem. assign_property key (get_attr data key) dbItem) ks it))
           ''__proto__''
           = map_of (item_fields it) ''__proto__''"
  using assms by (induction ks arbitrary: it) (auto simp: assign_property_plain update_conv')

lemma assign_fields_model: "item_model (assign_fields data it) = item_model it"
  using assign_fold [of data "remdups (map fst data)" it] by (simp add: assign_fields_def)

text \<open>
  After the assignments of \<open>update\<close>, every field but \<^verbatim>\<open>__proto__\<close> has the value
  \<open>data\<close> gives it, or the one it had when \<open>data\<close> does not name it.
\<close>

lemma assign_fields_attr:
  assumes "f \<noteq> ''__proto__''"
  shows "get_attr (item_fields (assign_fields data it)) f =
     (case map_of data f of Some v \<Rightarrow> v | None \<Rightarrow> get_attr (item_fields it) f)"
proof (cases "map_of data f")
  case None
  then have "f \<notin> set (remdups (map fst data))" by (simp add: map_of_eq_None_iff)
  with None assms show ?thesis
    using assign_fold [of data "remdups (map fst data)" it f] by (simp add: assign_fields_def get_attr_def)
next
  case (Some v)
  then have "f \<in> set (remdups (map fst data))"
    by (metis map_of_eq_None_iff option.distinct(1) set_map set_remdups)
  with Some assms show ?thesis
    using assign_fold [of data "remdups (map fst data)" it f] by (simp add: assign_fields_def get_attr_def)
qed

text \<open>When \<open>data\<close> has no key \<^verbatim>\<open>__proto__\<close>, that holds of every field, and the prototype stays.\<close>

lemma assign_fields_plain:
  assumes "map_of data ''__proto__'' = None"
  shows "item_proto (assign_fields data it) = item_proto it
     \<and> (\<forall>f. get_attr (item_fields (assign_fields data it)) f =
           (case map_of data f of Some v \<Rightarrow> v | None \<Rightarrow> get_attr (item_fields it) f))"
proof -
  from assms have n: "''__proto__'' \<notin> set (remdups (map fst data))"
    by (simp add: map_of_eq_None_iff)
  have p: "get_attr (item_fields (assign_fields data it)) ''__proto__'' =
      get_attr (item_fields it) ''__proto__''"
    using assign_fold_plain [OF n, of data it] by (simp add: assign_fields_def get_attr_def)
  have "get_attr (item_fields (assign_fields data it)) f =
           (case map_of data f of Some v \<Rightarrow> v | None \<Rightarrow> get_attr (item_fields it) f)" for f
  proof (cases "f = ''__proto__''")
    case True
    with p assms show ?thesis by simp
  next
    case False
    then show ?thesis by (rule assign_fields_attr)
  qed
  then show ?thesis
    using assign_fold_plain [OF n, of data it] by (simp add: assign_fields_def)
qed

section \<open>Round trips through the database\<close>

lemma save_item_success:
  assumes "save_item w h = (Inr r, w1)"
  obtains it where "heap w h = Some it" and "r = h" and "heap w1 = heap w"
    and "models w1 = models w" and "next_handle w1 = next_handle w"
    and "tables w1 (model_name (item_model it)) =
           filter (\<lambda>d. get_attr d ''id'' \<noteq> get_attr (item_fields it) ''id'')
             (tables w (model_name (item_model it))) @ [item_fields it]"
  using assms
  by (auto simp: save_item_def save_exec_def backend_call_def
      split: option.splits if_splits prod.splits)

lemma delete_success:
  assumes "delete w h = (Inr r, w1)" and "heap w h = Some it"
  shows "r = h \<and> tables w1 (model_name (item_model it)) =
           filter (\<lambda>d. get_attr d ''id'' \<noteq> get_attr (item_fields it) ''id'')
             (tables w (model_name (item_model it)))"
  using assms
  by (auto simp: delete_def delete_exec_def backend_call_def
      split: option.splits if_splits prod.splits)

lemma query_exec_no_match:
  assumes "next_outcome w = None"
    and "filter (\<lambda>d. get_attr d key = v) (tables w (model_name m)) = []"
  shows "query_exec m key v w =
           (Inr [], w\<lparr>outcomes := tl (outcomes w), calls := calls w @ [QueryReq (model_name m) key v]\<rparr>)"
  using assms by (simp add: query_exec_def backend_call_def)

lemma query_exec_one_match:
  assumes "next_outcome w = None"
    and "filter (\<lambda>d. get_attr d key = v) (tables w (model_name m)) = [d]"
  shows "query_exec m key v w =
           (Inr [next_handle w],
            w\<lparr>outcomes := tl (outcomes w), calls := calls w @ [QueryReq (model_name m) key v],
              heap := (heap w)(next_handle w \<mapsto> \<lparr>item_model = m, item_proto = ModelProto, item_fields = d\<rparr>),
              next_handle := Suc (next_handle w)\<rparr>)"
  using assms by (simp add: query_exec_def backend_call_def alloc_def)

lemma filter_put:
  "filter (\<lambda>d. get_attr d k = get_attr x k) (filter (\<lambda>d. get_attr d k \<noteq> get_attr x k) ds @ [x]) = [x]"
  by (induction ds) auto

lemma filter_removed:
  "filter (\<lambda>d. get_attr d k = v) (filter (\<lambda>d. get_attr d k \<noteq> v) ds) = []"
  by (induction ds) auto

text \<open>
  The round trip of an update whose mapping has no key \<^verbatim>\<open>__proto__\<close>. After
  \<open>update(record, data)\<close> has succeeded, \<open>getById\<close> on the record's table and on the
  id the handle then holds returns a record in which every field named in \<open>data\<close> has
  the value \<open>data\<close> gives it and every other field is as it was in the handle before
  the update. \<open>update\<close> resolves with the same handle. The read is taken when the
  database answers it without an error.
\<close>

lemma update_getById_roundtrip:
  assumes "heap w dbItem = Some it"
    and "update w dbItem data = (Inr r, w1)"
    and "models w1 tableName = Some (item_model it)"
    and "next_outcome w1 = None"
    and "map_of data ''__proto__'' = None"
  shows "r = dbItem \<and>
     (\<exists>it1 h w2 it2.
        heap w1 dbItem = Some it1
        \<and> getById w1 tableName (get_attr (item_fields it1) ''id'') = (Inr h, w2)
        \<and> heap w2 h = Some it2
        \<and> item_model it2 = item_model it
        \<and> (\<forall>f. get_attr (item_fields it2) f =
               (case map_of data f of Some v \<Rightarrow> v | None \<Rightarrow> get_attr (item_fields it) f)))"
proof -
  let ?it1 = "assign_fields data it"
  let ?w0 = "w\<lparr>heap := (heap w)(dbItem \<mapsto> ?it1)\<rparr>"
  let ?m = "item_model it"
  let ?ident = "get_attr (item_fields ?it1) ''id''"
  from assms(1,2) have sv: "save_item ?w0 dbItem = (Inr r, w1)" by (simp add: update_def)
  from sv obtain it' where h0: "heap ?w0 dbItem = Some it'" and r: "r = dbItem"
    and hp: "heap w1 = heap ?w0"
    and tb: "tables w1 (model_name (item_model it')) =
           filter (\<lambda>d. get_attr d ''id'' \<noteq> get_attr (item_fields it') ''id'')
             (tables ?w0 (model_name (item_model it'))) @ [item_fields it']"
    by (rule save_item_success)
  from h0 have it': "it' = ?it1" by simp
  have h1: "heap w1 dbItem = Some ?it1" using hp by simp
  have tb1: "filter (\<lambda>d. get_attr d ''id'' = ?ident) (tables w1 (model_name ?m)) = [item_fields ?it1]"
    using tb unfolding it' assign_fields_model by (simp only: filter_put)
  have q: "query_exec ?m ''id'' ?ident w1 =
           (Inr [next_handle w1],
            w1\<lparr>outcomes := tl (outcomes w1), calls := calls w1 @ [QueryReq (model_name ?m) ''id'' ?ident],
              heap := (heap w1)(next_handle w1 \<mapsto> \<lparr>item_model = ?m, item_proto = ModelProto, item_fields = item_fields ?it1\<rparr>),
              next_handle := Suc (next_handle w1)\<rparr>)"
    using assms(4) tb1 by (rule query_exec_one_match)
  let ?w2 = "w1\<lparr>outcomes := tl (outcomes w1), calls := calls w1 @ [QueryReq (model_name ?m) ''id'' ?ident],
              heap := (heap w1)(next_handle w1 \<mapsto> \<lparr>item_model = ?m, item_proto = ModelProto, item_fields = item_fields ?it1\<rparr>),
              next_handle := Suc (next_handle w1)\<rparr>"
  have g: "getById w1 tableName ?ident = (Inr (next_handle w1), ?w2)"
    using assms(3) q by (simp add: getById_def)
  have h2: "heap ?w2 (next_handle w1) = Some \<lparr>item_model = ?m, item_proto = ModelProto, item_fields = item_fields ?it1\<rparr>"
    by simp
  have fr: "\<forall>f. get_attr (item_fields \<lparr>item_model = ?m, item_proto = ModelProto, item_fields = item_fields ?it1\<rparr>) f =
               (case map_of data f of Some v \<Rightarrow> v | None \<Rightarrow> get_attr (item_fields it) f)"
    using assign_fields_plain [OF assms(5), of it] by simp
  have md: "item_model \<lparr>item_model = ?m, item_proto = ModelProto, item_fields = item_fields ?it1\<rparr> = item_model it" by simp
  from r h1 g h2 md fr show ?thesis by blast
qed

text \<open>
  Claim C6. After \<open>delete(record)\<close> has succeeded, resolving with the same handle, a
  following \<open>getById\<close> on the record's table and id raises \<open>NotFound\<close>.
\<close>

theorem delete_getById_not_found:
  assumes "heap w dbItem = Some it"
    and "delete w dbItem = (Inr r, w1)"
    and "models w1 tableName = Some (item_model it)"
    and "next_outcome w1 = None"
  shows "r = dbItem \<and>
     (\<exists>w2. getById w1 tableName (get_attr (item_fields it) ''id'') =
        (Inl (NotFoundError
           (tableName @ '' with id: '' @ to_string (get_attr (item_fields it) ''id'')
              @ '' doesn'' @ [CHR 0x27] @ ''t exist'')), w2))"
proof -
  let ?m = "item_model it"
  let ?ident = "get_attr (item_fields it) ''id''"
  from delete_success [OF assms(2,1)] have r: "r = dbItem"
    and tb: "tables w1 (model_name ?m) =
           filter (\<lambda>d. get_attr d ''id'' \<noteq> ?ident) (tables w (model_name ?m))"
    by simp_all
  have "filter (\<lambda>d. get_attr d ''id'' = ?ident) (tables w1 (model_name ?m)) = []"
    unfolding tb by (rule filter_removed)
  with assms(4) have "query_exec ?m ''id'' ?ident w1 =
      (Inr [], w1\<lparr>outcomes := tl (outcomes w1),
                  calls := calls w1 @ [QueryReq (model_name ?m) ''id'' ?ident]\<rparr>)"
    by (rule query_exec_no_match)
  with assms(3) r show ?thesis by (simp add: getById_def)
qed


lemma canada_updated:
  "update canada_world 0 [(''countryCode'', Str ''CA'')] =
     (Inr 0,
      \<lparr>models = [''countries'' \<mapsto> getDynamooseModel ''countries'' Country], pending = [],
       heap = [0 \<mapsto> \<lparr>item_model = getDynamooseModel ''countries'' Country,
                      item_proto = ModelProto,
                      item_fields = [(''id'', Str ''c1''), (''name'', Str ''Canada''),
                                     (''countryCode'', Str ''CA''), (''isDeleted'', Bool False)]\<rparr>],
       next_handle = Suc 0,
       tables = (\<lambda>t. [])(''countries'' :=
                  [[(''id'', Str ''c1''), (''name'', Str ''Canada''),
                    (''countryCode'', Str ''CA''), (''isDeleted'', Bool False)]]),
       outcomes = [],
       calls = [PutReq ''countries'' canada,
                PutReq ''countries'' [(''id'', Str ''c1''), (''name'', Str ''Canada''),
                    (''countryCode'', Str ''CA''), (''isDeleted'', Bool False)]]\<rparr>)"
  by (simp add: update_def canada_world_eq assign_fields_def assign_property_def save_item_def
      has_method_def save_exec_def backend_call_def next_outcome_def getDynamooseModel_def
      canada_def get_attr_def)

lemma update_getById_roundtrip_example:
  "\<exists>h w2 it2.
     getById (snd (update canada_world 0 [(''countryCode'', Str ''CA'')])) ''countries'' (Str ''c1'')
       = (Inr h, w2)
     \<and> heap w2 h = Some it2
     \<and> get_attr (item_fields it2) ''countryCode'' = Str ''CA''
     \<and> get_attr (item_fields it2) ''name'' = Str ''Canada''"
proof -
  let ?data = "[(''countryCode'', Str ''CA'')]"
  let ?it = "\<lparr>item_model = getDynamooseModel ''countries'' Country, item_proto = ModelProto, item_fields = canada\<rparr>"
  let ?w1 = "snd (update canada_world 0 ?data)"
  have a1: "heap canada_world 0 = Some ?it" by (simp add: canada_world_eq)
  have a2: "update canada_world 0 ?data = (Inr 0, ?w1)" by (simp add: canada_updated)
  have a3: "models ?w1 ''countries'' = Some (item_model ?it)" by (simp add: canada_updated)
  have a4: "next_outcome ?w1 = None" by (simp add: canada_updated next_outcome_def)
  have a5: "map_of ?data ''__proto__'' = None" by simp
  from update_getById_roundtrip [OF a1 a2 a3 a4 a5]
  obtain it1 h w2 it2 where h1: "heap ?w1 0 = Some it1"
    and g: "getById ?w1 ''countries'' (get_attr (item_fields it1) ''id'') = (Inr h, w2)"
    and h2: "heap w2 h = Some it2"
    and fr: "\<forall>f. get_attr (item_fields it2) f =
               (case map_of ?data f of Some v \<Rightarrow> v | None \<Rightarrow> get_attr (item_fields ?it) f)"
    by blast
  from h1 have "get_attr (item_fields it1) ''id'' = Str ''c1''"
    by (auto simp: canada_updated get_attr_def)
  with g have g': "getById ?w1 ''countries'' (Str ''c1'') = (Inr h, w2)" by simp
  from fr have c: "get_attr (item_fields it2) ''countryCode'' = Str ''CA''" by simp
  from fr have n: "get_attr (item_fields it2) ''name'' = Str ''Canada''"
    by (simp add: canada_def get_attr_def)
  from g' h2 c n show ?thesis by blast
qed

lemma canada_proto_update:
  "fst (update canada_world 0 [(''__proto__'', Str ''x'')]) = Inr 0
   \<and> heap (snd (update canada_world 0 [(''__proto__'', Str ''x'')])) = heap canada_world
   \<and> models (snd (update canada_world 0 [(''__proto__'', Str ''x'')])) = models canada_world
   \<and> next_handle (snd (update canada_world 0 [(''__proto__'', Str ''x'')])) = Suc 0
   \<and> outcomes (snd (update canada_world 0 [(''__proto__'', Str ''x'')])) = []
   \<and> tables (snd (update canada_world 0 [(''__proto__'', Str ''x'')])) ''countries'' = [canada]
   \<and> calls (snd (update canada_world 0 [(''__proto__'', Str ''x'')])) =
       [PutReq ''countries'' canada, PutReq ''countries'' canada]"
  by (simp add: update_def canada_world_eq assign_fields_def assign_property_def save_item_def
      has_method_def save_exec_def backend_call_def next_outcome_def getDynamooseModel_def
      canada_def get_attr_def)

text \<open>
  Claim C5 (after a successful \<open>update(record, {field: value})\<close>, \<open>getById\<close>
  returns a record in which \<open>field\<close> equals \<open>value\<close>) fails on the code for a
  mapping with an own key \<^verbatim>\<open>__proto__\<close>, as \<^verbatim>\<open>JSON.parse\<close> yields. The assignment \<^verbatim>\<open>dbItem[key] = data[key]\<close> (line 181) then
  calls the setter of \<^verbatim>\<open>Object.prototype\<close>, which ignores the string and writes no
  field. \<open>update\<close> succeeds and saves the record as it was, and the record that
  \<open>getById\<close> returns has the fields of Canada, with no field \<^verbatim>\<open>__proto__\<close> of the
  value \<open>x\<close>.
\<close>

theorem update_proto_key_roundtrip:
  "fst (update canada_world 0 [(''__proto__'', Str ''x'')]) = Inr 0
   \<and> fst (getById (snd (update canada_world 0 [(''__proto__'', Str ''x'')])) ''countries'' (Str ''c1''))
       = Inr (Suc 0)
   \<and> map_option item_fields
       (heap (snd (getById (snd (update canada_world 0 [(''__proto__'', Str ''x'')]))
          ''countries'' (Str ''c1''))) (Suc 0)) = Some canada
   \<and> get_attr canada ''__proto__'' = Undefined"
proof -
  have g: "getById (snd (update canada_world 0 [(''__proto__'', Str ''x'')])) ''countries'' (Str ''c1'') =
      (Inr (Suc 0),
       (snd (update canada_world 0 [(''__proto__'', Str ''x'')]))
         \<lparr>outcomes := [],
          calls := [PutReq ''countries'' canada, PutReq ''countries'' canada,
                    QueryReq ''countries'' ''id'' (Str ''c1'')],
          heap := (heap canada_world)
            (Suc 0 \<mapsto> \<lparr>item_model = getDynamooseModel ''countries'' Country, item_proto = ModelProto,
                          item_fields = canada\<rparr>),
          next_handle := Suc (Suc 0)\<rparr>)"
    using canada_proto_update
    by (simp add: getById_def query_exec_def backend_call_def next_outcome_def alloc_def
        canada_world_eq getDynamooseModel_def)
       (simp add: canada_def get_attr_def)
  have u: "get_attr canada ''__proto__'' = Undefined" by (simp add: canada_def get_attr_def)
  from canada_proto_update g u show ?thesis by simp
qed

lemma canada_deleted:
  "delete canada_world 0 =
     (Inr 0,
      \<lparr>models = [''countries'' \<mapsto> getDynamooseModel ''countries'' Country], pending = [],
       heap = [0 \<mapsto> \<lparr>item_model = getDynamooseModel ''countries'' Country, item_proto = ModelProto, item_fields = canada\<rparr>],
       next_handle = Suc 0,
       tables = (\<lambda>t. [])(''countries'' := []),
       outcomes = [],
       calls = [PutReq ''countries'' canada, DeleteReq ''countries'' canada]\<rparr>)"
  by (simp add: delete_def canada_world_eq has_method_def
      delete_exec_def backend_call_def next_outcome_def getDynamooseModel_def canada_def get_attr_def)

theorem delete_getById_not_found_witness:
  "fst (delete canada_world 0) = Inr 0
   \<and> fst (getById (snd (delete canada_world 0)) ''countries'' (Str ''c1'')) =
       Inl (NotFoundError (''countries with id: c1 doesn'' @ [CHR 0x27] @ ''t exist''))"
proof -
  let ?it = "\<lparr>item_model = getDynamooseModel ''countries'' Country, item_proto = ModelProto, item_fields = canada\<rparr>"
  let ?w1 = "snd (delete canada_world 0)"
  have a1: "heap canada_world 0 = Some ?it" by (simp add: canada_world_eq)
  have a2: "delete canada_world 0 = (Inr 0, ?w1)" by (simp add: canada_deleted)
  have a3: "models ?w1 ''countries'' = Some (item_model ?it)" by (simp add: canada_deleted)
  have a4: "next_outcome ?w1 = None" by (simp add: canada_deleted next_outcome_def)
  have i: "get_attr (item_fields ?it) ''id'' = Str ''c1''" by (simp add: canada_def get_attr_def)
  from delete_getById_not_found [OF a1 a2 a3 a4]
  show ?thesis unfolding i by (auto simp: canada_deleted)
qed

section \<open>Failures of the database\<close>

lemma search_fails:
  assumes "next_outcome w = Some e" and "models w tableName = Some m"
  shows "search w tableName opts =
     (Inl (Backend e),
      w\<lparr>outcomes := tl (outcomes w), calls := calls w @ [ScanReq (model_name m) opts]\<rparr>)"
  using assms by (simp add: search_def scan_exec_fails)

lemma getById_fails:
  assumes "next_outcome w = Some e" and "models w tableName = Some m"
  shows "getById w tableName ident =
     (Inl (Backend e),
      w\<lparr>outcomes := tl (outcomes w), calls := calls w @ [QueryReq (model_name m) ''id'' ident]\<rparr>)"
  using assms by (simp add: getById_def query_exec_fails)

lemma save_item_fails:
  assumes "next_outcome w = Some e" and "heap w h = Some it" and "has_method it ''save''"
  shows "save_item w h =
     (Inl (Backend e),
      w\<lparr>outcomes := tl (outcomes w),
        calls := calls w @ [PutReq (model_name (item_model it)) (item_fields it)]\<rparr>)"
  using assms by (simp add: save_item_def save_exec_fails)

lemma update_fails:
  assumes "next_outcome w = Some e" and "heap w h = Some it"
    and "has_method (assign_fields data it) ''save''"
  shows "update w h data =
     (Inl (Backend e),
      w\<lparr>heap := (heap w)(h \<mapsto> assign_fields data it), outcomes := tl (outcomes w),
        calls := calls w @ [PutReq (model_name (item_model it)) (item_fields (assign_fields data it))]\<rparr>)"
proof -
  let ?w0 = "w\<lparr>heap := (heap w)(h \<mapsto> assign_fields data it)\<rparr>"
  have "next_outcome ?w0 = Some e" using assms(1) by (simp add: next_outcome_def)
  moreover have "heap ?w0 h = Some (assign_fields data it)" by simp
  ultimately have "save_item ?w0 h =
     (Inl (Backend e),
      ?w0\<lparr>outcomes := tl (outcomes ?w0),
        calls := calls ?w0 @ [PutReq (model_name (item_model (assign_fields data it)))
                  (item_fields (assign_fields data it))]\<rparr>)"
    using assms(3) by (rule save_item_fails)
  with assms(2) show ?thesis by (simp add: update_def assign_fields_model)
qed

lemma create_fails:
  assumes "next_outcome w = Some e" and "models w tableName = Some m"
    and "map_of data ''save'' = None"
  shows "create w tableName data =
     (Inl (Backend e),
      w\<lparr>heap := (heap w)(next_handle w \<mapsto> \<lparr>item_model = m, item_proto = ModelProto, item_fields = data\<rparr>),
        next_handle := Suc (next_handle w), outcomes := tl (outcomes w),
        calls := calls w @ [PutReq (model_name m) data]\<rparr>)"
proof -
  let ?w0 = "w\<lparr>heap := (heap w)(next_handle w \<mapsto> \<lparr>item_model = m, item_proto = ModelProto, item_fields = data\<rparr>),
        next_handle := Suc (next_handle w)\<rparr>"
  have "next_outcome ?w0 = Some e" using assms(1) by (simp add: next_outcome_def)
  moreover have "heap ?w0 (next_handle w) = Some \<lparr>item_model = m, item_proto = ModelProto, item_fields = data\<rparr>" by simp
  moreover have "has_method \<lparr>item_model = m, item_proto = ModelProto, item_fields = data\<rparr> ''save''"
    using assms(3) by (simp add: has_method_def)
  ultimately have "save_item ?w0 (next_handle w) =
     (Inl (Backend e),
      ?w0\<lparr>outcomes := tl (outcomes ?w0),
        calls := calls ?w0 @ [PutReq (model_name (item_model \<lparr>item_model = m, item_proto = ModelProto, item_fields = data\<rparr>))
                  (item_fields \<lparr>item_model = m, item_proto = ModelProto, item_fields = data\<rparr>)]\<rparr>)"
    by (rule save_item_fails)
  with assms(2) show ?thesis by (simp add: create_def alloc_def)
qed

lemma delete_fails:
  assumes "next_outcome w = Some e" and "heap w h = Some it" and "has_method it ''delete''"
  shows "delete w h =
     (Inl (Backend e),
      w\<lparr>outcomes := tl (outcomes w),
        calls := calls w @ [DeleteReq (model_name (item_model it)) (item_fields it)]\<rparr>)"
  using assms by (simp add: delete_def delete_exec_fails)


lemma validateDuplicate_fails:
  assumes "next_outcome w = Some e" and "models w tableName = Some m"
    and "isArray keys \<longrightarrow> js_length values = js_length keys"
  shows "validateDuplicate w tableName keys values =
     (Inl (Backend e),
      w\<lparr>outcomes := tl (outcomes w),
        calls := calls w @ [ScanReq (model_name m) (induced_options keys values)]\<rparr>)"
  using duplicate_options_induced [OF assms(3)] search_fails [OF assms(1,2)]
  by (simp add: validateDuplicate_def)

text \<open>
  Claim C7. When the database call of an operation fails with an error \<open>e\<close>, the
  operation rejects with \<open>e\<close> itself: nothing translates or wraps it, and nothing is
  tried again, as the one request added to the log and the one outcome taken from the
  schedule show. This holds for each of \<open>search\<close>, \<open>getById\<close>, \<open>validateDuplicate\<close>,
  \<open>create\<close>, \<open>update\<close> and \<open>delete\<close>, whenever the operation gets as far as its
  database call.
\<close>

theorem backend_errors_propagate:
  assumes "next_outcome w = Some e"
  shows
    "(\<forall>m. models w tableName = Some m \<longrightarrow>
        search w tableName searchOptions =
          (Inl (Backend e),
           w\<lparr>outcomes := tl (outcomes w),
             calls := calls w @ [ScanReq (model_name m) searchOptions]\<rparr>))
     \<and> (\<forall>m. models w tableName = Some m \<longrightarrow>
        getById w tableName ident =
          (Inl (Backend e),
           w\<lparr>outcomes := tl (outcomes w),
             calls := calls w @ [QueryReq (model_name m) ''id'' ident]\<rparr>))
     \<and> (\<forall>m. models w tableName = Some m \<and> (isArray keys \<longrightarrow> js_length values = js_length keys) \<longrightarrow>
        validateDuplicate w tableName keys values =
          (Inl (Backend e),
           w\<lparr>outcomes := tl (outcomes w),
             calls := calls w @ [ScanReq (model_name m) (induced_options keys values)]\<rparr>))
     \<and> (\<forall>m. models w tableName = Some m \<and> map_of data ''save'' = None \<longrightarrow>
        create w tableName data =
          (Inl (Backend e),
           w\<lparr>heap := (heap w)(next_handle w \<mapsto> \<lparr>item_model = m, item_proto = ModelProto, item_fields = data\<rparr>),
             next_handle := Suc (next_handle w), outcomes := tl (outcomes w),
             calls := calls w @ [PutReq (model_name m) data]\<rparr>))
     \<and> (\<forall>it. heap w dbItem = Some it \<and> has_method (assign_fields data it) ''save'' \<longrightarrow>
        update w dbItem data =
          (Inl (Backend e),
           w\<lparr>heap := (heap w)(dbItem \<mapsto> assign_fields data it), outcomes := tl (outcomes w),
             calls := calls w @
               [PutReq (model_name (item_model it)) (item_fields (assign_fields data it))]\<rparr>))
     \<and> (\<forall>it. heap w dbItem = Some it \<and> has_method it ''delete'' \<longrightarrow>
        delete w dbItem =
          (Inl (Backend e),
           w\<lparr>outcomes := tl (outcomes w),
             calls := calls w @ [DeleteReq (model_name (item_model it)) (item_fields it)]\<rparr>))"
  using search_fails [OF assms] getById_fails [OF assms] validateDuplicate_fails [OF assms]
    create_fails [OF assms] update_fails [OF assms] delete_fails [OF assms]
  by blast

theorem backend_errors_propagate_witness:
  "fst (search throttled_world ''countries'' []) = Inl (Backend ''ProvisionedThroughputExceededException'')
   \<and> fst (getById throttled_world ''countries'' (Str ''c1'')) =
       Inl (Backend ''ProvisionedThroughputExceededException'')
   \<and> fst (validateDuplicate throttled_world ''countries'' (Str ''name'') (Str ''Canada'')) =
       Inl (Backend ''ProvisionedThroughputExceededException'')
   \<and> fst (create throttled_world ''countries'' [(''countryCode'', Str ''CA'')]) =
       Inl (Backend ''ProvisionedThroughputExceededException'')
   \<and> fst (update throttled_world 0 [(''countryCode'', Str ''CA'')]) =
       Inl (Backend ''ProvisionedThroughputExceededException'')
   \<and> fst (delete throttled_world 0) = Inl (Backend ''ProvisionedThroughputExceededException'')
   \<and> length (calls (snd (delete throttled_world 0))) = Suc (length (calls throttled_world))"
proof -
  let ?m = "getDynamooseModel ''countries'' Country"
  let ?it = "\<lparr>item_model = ?m, item_proto = ModelProto, item_fields = canada\<rparr>"
  have o: "next_outcome throttled_world = Some ''ProvisionedThroughputExceededException''"
    by (simp add: throttled_world_def next_outcome_def)
  have m: "models throttled_world ''countries'' = Some ?m"
    by (simp add: throttled_world_def canada_world_eq)
  have h: "heap throttled_world 0 = Some ?it"
    by (simp add: throttled_world_def canada_world_eq)
  have k: "isArray (Str ''name'') \<longrightarrow> js_length (Str ''Canada'') = js_length (Str ''name'')"
    by simp
  have d: "map_of [(''countryCode'', Str ''CA'')] ''save'' = None" by simp
  have u: "has_method (assign_fields [(''countryCode'', Str ''CA'')] ?it) ''save''"
    by (simp add: has_method_def assign_fields_def assign_property_def canada_def get_attr_def)
  have r: "has_method ?it ''delete''" by (simp add: has_method_def canada_def)
  show ?thesis
    using backend_errors_propagate [OF o, of "''countries''" "[]" "Str ''c1''" "Str ''name''"
        "Str ''Canada''" "[(''countryCode'', Str ''CA'')]" 0] m h k d u r
    by simp
qed

lemma save_item_heap: "save_item w h = (r, w') \<Longrightarrow> heap w' = heap w"
  by (auto simp: save_item_def split: option.splits prod.splits if_splits dest: save_exec_frame)

lemma save_item_calls:
  assumes "heap w h = Some it" and "has_method it ''save''"
  shows "calls (snd (save_item w h)) =
           calls w @ [PutReq (model_name (item_model it)) (item_fields it)]"
  using assms
  by (simp add: save_item_def save_exec_def backend_call_def split: option.splits prod.splits)

text \<open>
  \<open>update\<close> writes the handle before it saves. Whatever the outcome, the handle then is
  the old one with the assignments made, and every field but \<^verbatim>\<open>__proto__\<close> has the
  value \<open>data\<close> gives it. What is sent to the database is the handle as overwritten.
  When the save fails in the database, \<open>update\<close> rejects with the database's error and
  the tables are unchanged.
\<close>

lemma update_not_atomic:
  assumes "heap w dbItem = Some it"
  shows "heap (snd (update w dbItem data)) dbItem = Some (assign_fields data it)
     \<and> (\<forall>f. f \<noteq> ''__proto__'' \<longrightarrow>
           get_attr (item_fields (assign_fields data it)) f =
             (case map_of data f of Some v \<Rightarrow> v | None \<Rightarrow> get_attr (item_fields it) f))
     \<and> (has_method (assign_fields data it) ''save'' \<longrightarrow>
           calls (snd (update w dbItem data)) =
             calls w @ [PutReq (model_name (item_model it)) (item_fields (assign_fields data it))])
     \<and> (\<forall>e. has_method (assign_fields data it) ''save'' \<and> next_outcome w = Some e \<longrightarrow>
           fst (update w dbItem data) = Inl (Backend e)
           \<and> tables (snd (update w dbItem data)) = tables w)"
proof -
  let ?w0 = "w\<lparr>heap := (heap w)(dbItem \<mapsto> assign_fields data it)\<rparr>"
  have u: "update w dbItem data = save_item ?w0 dbItem" using assms by (simp add: update_def)
  have "heap (snd (save_item ?w0 dbItem)) = heap ?w0"
    using save_item_heap [of ?w0 dbItem] by (cases "save_item ?w0 dbItem") simp
  then have 1: "heap (snd (update w dbItem data)) dbItem = Some (assign_fields data it)"
    by (simp add: u)
  have 2: "has_method (assign_fields data it) ''save'' \<longrightarrow>
           calls (snd (update w dbItem data)) =
             calls w @ [PutReq (model_name (item_model it)) (item_fields (assign_fields data it))]"
    using save_item_calls [of ?w0 dbItem "assign_fields data it"]
    by (simp add: u assign_fields_model)
  have 3: "\<forall>e. has_method (assign_fields data it) ''save'' \<and> next_outcome w = Some e \<longrightarrow>
           fst (update w dbItem data) = Inl (Backend e)
           \<and> tables (snd (update w dbItem data)) = tables w"
    using update_fails [OF _ assms, of _ data] by simp
  from 1 2 3 show ?thesis by (simp add: assign_fields_attr)
qed

lemma update_not_atomic_example:
  "fst (update throttled_world 0 [(''countryCode'', Str ''CA'')]) =
     Inl (Backend ''ProvisionedThroughputExceededException'')
   \<and> map_option (\<lambda>it. get_attr (item_fields it) ''countryCode'')
       (heap (snd (update throttled_world 0 [(''countryCode'', Str ''CA'')])) 0) = Some (Str ''CA'')
   \<and> map (\<lambda>d. get_attr d ''countryCode'')
       (tables (snd (update throttled_world 0 [(''countryCode'', Str ''CA'')])) ''countries'') = [Str ''CAN'']"
proof -
  let ?it = "\<lparr>item_model = getDynamooseModel ''countries'' Country, item_proto = ModelProto, item_fields = canada\<rparr>"
  have h: "heap throttled_world 0 = Some ?it"
    by (simp add: throttled_world_def canada_world_eq)
  have o: "next_outcome throttled_world = Some ''ProvisionedThroughputExceededException''"
    by (simp add: throttled_world_def next_outcome_def)
  have u: "has_method (assign_fields [(''countryCode'', Str ''CA'')] ?it) ''save''"
    by (simp add: has_method_def assign_fields_def assign_property_def canada_def get_attr_def)
  have t: "tables throttled_world ''countries'' = [canada]"
    by (simp add: throttled_world_def canada_world_eq)
  show ?thesis
    using update_not_atomic [OF h, of "[(''countryCode'', Str ''CA'')]"] o u t
    by (simp add: canada_def get_attr_def)
qed

text \<open>
  Claim C10 (when the save fails in the database, \<open>update\<close> rejects with the
  database's error and the handle already holds the new field values) fails on the code
  for a mapping with an own key \<^verbatim>\<open>__proto__\<close>, as \<^verbatim>\<open>JSON.parse\<close> yields. The assignment \<^verbatim>\<open>dbItem[key] = data[key]\<close> (line 181) calls
  the setter of \<^verbatim>\<open>Object.prototype\<close>, which ignores the string and writes no field.
  The save is attempted and fails in the database, \<open>update\<close> rejects with the
  database's error, and the handle holds the fields of Canada as before: it does not hold
  the new value.
\<close>

theorem update_proto_key_failed_save:
  "fst (update throttled_world 0 [(''__proto__'', Str ''x'')]) =
     Inl (Backend ''ProvisionedThroughputExceededException'')
   \<and> map_option item_fields (heap (snd (update throttled_world 0 [(''__proto__'', Str ''x'')])) 0)
       = Some canada
   \<and> get_attr canada ''__proto__'' = Undefined"
  by (simp add: update_def throttled_world_def canada_world_eq assign_fields_def assign_property_def
      save_item_def has_method_def save_exec_def backend_call_def next_outcome_def
      getDynamooseModel_def canada_def get_attr_def)

end
